theory Spec2Isabelle
  imports Complex_Main "HOL-Library.Sublist" "HOL-Library.AList"
begin

section \<open>Asset state machine (shared/iot_edge_base/asset.py)\<close>

text \<open>
  \<open>AssetState\<close> is the enum of the source; its members are strings, \<open>state_value\<close> gives
  the string of each. A \<open>BaseAsset\<close> instance holds \<open>_state\<close>, \<open>_fault_code\<close>
  (\<open>str | None\<close>), its \<open>asyncio.Lock\<close> and whatever the concrete driver adds: the fields
  \<open>attr_state\<close>, \<open>attr_fault_code\<close>, \<open>lock_held\<close> and \<open>driver\<close>. The properties
  \<open>state\<close> and \<open>fault_code\<close> of \<open>BaseAsset\<close> read the first two. The three abstract
  hooks are parameters acting on the driver part, as in the three drivers of the
  repository. Logging has no effect on the fields and is left out.
\<close>

datatype AssetState = IDLE | STARTING | RUNNING | STOPPING | FAULT

fun state_value :: "AssetState \<Rightarrow> string" where
  "state_value IDLE = ''IDLE''"
| "state_value STARTING = ''STARTING''"
| "state_value RUNNING = ''RUNNING''"
| "state_value STOPPING = ''STOPPING''"
| "state_value FAULT = ''FAULT''"

record 'd asset =
  attr_state :: AssetState
  attr_fault_code :: "string option"
  lock_held :: bool
  driver :: 'd

record 'd hooks =
  on_start :: "'d \<Rightarrow> 'd"
  on_stop :: "'d \<Rightarrow> 'd"
  on_fault :: "string \<Rightarrow> 'd \<Rightarrow> 'd"

definition init_asset :: "'d \<Rightarrow> 'd asset" where
  "init_asset d =
     \<lparr>attr_state = IDLE, attr_fault_code = None, lock_held = False, driver = d\<rparr>"

definition state :: "'d asset \<Rightarrow> AssetState" where
  "state a = attr_state a"

definition fault_code :: "'d asset \<Rightarrow> string option" where
  "fault_code a = attr_fault_code a"

text \<open>
  \<open>start()\<close> takes the lock, tests \<open>_state\<close> and, from IDLE, sets STARTING and awaits
  the hook. In every driver the hook begins with \<open>await asyncio.sleep(...)\<close>, where the
  coroutine is suspended with the lock held and other coroutines run; \<open>start_enter\<close> is
  the call up to that point, \<open>start_resume\<close> the rest: what the hook does after its
  sleep (\<open>on_start\<close>), the unconditional assignment of RUNNING and the release of the
  lock. \<open>start\<close> is the whole call, made with the lock free, when nothing else runs while
  it is suspended.
\<close>

definition start_enter :: "'d asset \<Rightarrow> 'd asset" where
  "start_enter a =
     (let a1 = a\<lparr>lock_held := True\<rparr>
      in if attr_state a1 \<noteq> IDLE then a1\<lparr>lock_held := False\<rparr>
         else a1\<lparr>attr_state := STARTING\<rparr>)"

definition start_resume :: "'d hooks \<Rightarrow> 'd asset \<Rightarrow> 'd asset" where
  "start_resume h a =
     (let a1 = a\<lparr>driver := on_start h (driver a)\<rparr>;
          a2 = a1\<lparr>attr_state := RUNNING\<rparr>
      in a2\<lparr>lock_held := False\<rparr>)"

definition start :: "'d hooks \<Rightarrow> 'd asset \<Rightarrow> 'd asset" where
  "start h a =
     (let a1 = start_enter a
      in if lock_held a1 then start_resume h a1 else a1)"

text \<open>
  \<open>stop()\<close> of \<open>BaseAsset\<close>, with the lock free when it is called. No driver's
  \<open>_on_stop\<close> or \<open>_on_fault\<close> awaits anything, so \<open>stop\<close>, \<open>fault\<close> and \<open>reset\<close> run
  without being suspended. \<open>fault\<close> and \<open>reset\<close> do not take the lock.
\<close>

definition stop :: "'d hooks \<Rightarrow> 'd asset \<Rightarrow> 'd asset" where
  "stop h a =
     (let a0 = a\<lparr>lock_held := True\<rparr>
      in if \<not> (attr_state a0 = RUNNING \<or> attr_state a0 = STARTING)
         then a0\<lparr>lock_held := False\<rparr>
         else let a1 = a0\<lparr>attr_state := STOPPING\<rparr>;
                  a2 = a1\<lparr>driver := on_stop h (driver a1)\<rparr>;
                  a3 = a2\<lparr>attr_state := IDLE\<rparr>
              in a3\<lparr>lock_held := False\<rparr>)"

definition fault :: "'d hooks \<Rightarrow> string \<Rightarrow> 'd asset \<Rightarrow> 'd asset" where
  "fault h fcode a =
     (let a1 = a\<lparr>attr_state := FAULT\<rparr>;
          a2 = a1\<lparr>attr_fault_code := Some fcode\<rparr>
      in a2\<lparr>driver := on_fault h fcode (driver a2)\<rparr>)"

definition reset :: "'d asset \<Rightarrow> 'd asset" where
  "reset a =
     (if attr_state a \<noteq> FAULT then a
      else (a\<lparr>attr_fault_code := None\<rparr>)\<lparr>attr_state := IDLE\<rparr>)"

text \<open>
  A sequence of calls, each awaited to its end before the next is made.
\<close>

datatype asset_op = Start | Stop | Fault string | Reset

fun apply_op :: "'d hooks \<Rightarrow> 'd asset \<Rightarrow> asset_op \<Rightarrow> 'd asset" where
  "apply_op h a Start = start h a"
| "apply_op h a Stop = stop h a"
| "apply_op h a (Fault fcode) = fault h fcode a"
| "apply_op h a Reset = reset a"

definition run_ops :: "'d hooks \<Rightarrow> 'd asset \<Rightarrow> asset_op list \<Rightarrow> 'd asset" where
  "run_ops h a ops = foldl (apply_op h) a ops"

definition fault_inv :: "'d asset \<Rightarrow> bool" where
  "fault_inv a = ((attr_fault_code a \<noteq> None) = (attr_state a = FAULT))"

text \<open>
  Calls that overlap. The event loop runs one coroutine at a time and changes
  coroutine only where one is suspended, so an execution is a list of segments, each
  run without interruption: the body of a \<open>start()\<close> up to its suspension, the rest of
  that \<open>start()\<close>, and the bodies of \<open>stop()\<close>, \<open>fault(code)\<close> and \<open>reset()\<close>. A
  \<open>start()\<close> or \<open>stop()\<close> made while the lock is held waits for it: its body is a later
  segment, and \<open>None\<close> says that a segment cannot run at this point. The \<open>stop()\<close>
  of a segment is that of \<open>BaseAsset\<close>, which the inverter and the boiler inherit.
\<close>

datatype segment = Start_call | Start_resume | Stop_call | Fault_call string | Reset_call

fun seg_step :: "'d hooks \<Rightarrow> 'd asset \<Rightarrow> segment \<Rightarrow> 'd asset option" where
  "seg_step h a Start_call = (if lock_held a then None else Some (start_enter a))"
| "seg_step h a Start_resume = (if lock_held a then Some (start_resume h a) else None)"
| "seg_step h a Stop_call = (if lock_held a then None else Some (stop h a))"
| "seg_step h a (Fault_call fcode) = Some (fault h fcode a)"
| "seg_step h a Reset_call = Some (reset a)"

fun run_segments :: "'d hooks \<Rightarrow> 'd asset \<Rightarrow> segment list \<Rightarrow> 'd asset option" where
  "run_segments h a [] = Some a"
| "run_segments h a (s # ss) =
     (case seg_step h a s of None \<Rightarrow> None | Some a' \<Rightarrow> run_segments h a' ss)"

subsection \<open>The three drivers\<close>

text \<open>
  Of each driver, the fields that its hooks assign. \<open>SolarInverter\<close>
  (solar-module/src/inverter.py) and \<open>Boiler\<close> (boiler-module/src/boiler.py) add only
  hooks to \<open>BaseAsset\<close>. \<open>BatteryStorage\<close> (battery-module/src/battery.py) keeps a state
  of its own, \<open>_battery_state\<close> (a \<open>str\<close>: a member of \<open>AssetState\<close>, or CHARGING or
  DISCHARGING), overrides the property \<open>state\<close> to return it, and overrides \<open>stop()\<close>
  with a method that takes no lock and tests no state; \<open>start\<close>, \<open>fault\<close>, \<open>reset\<close> and
  \<open>fault_code\<close> are inherited.
\<close>

record inverter =
  inv_max_power_kw :: real
  inv_target_power_kw :: real
  inv_current_power_kw :: real

definition inverter_hooks :: "inverter hooks" where
  "inverter_hooks =
     \<lparr>on_start = (\<lambda>d. d\<lparr>inv_target_power_kw := inv_max_power_kw d\<rparr>),
      on_stop = (\<lambda>d. (d\<lparr>inv_current_power_kw := 0\<rparr>)\<lparr>inv_target_power_kw := 0\<rparr>),
      on_fault = (\<lambda>fcode d. (d\<lparr>inv_current_power_kw := 0\<rparr>)\<lparr>inv_target_power_kw := 0\<rparr>)\<rparr>"

definition init_inverter :: "real \<Rightarrow> inverter asset" where
  "init_inverter max_power =
     init_asset \<lparr>inv_max_power_kw = max_power, inv_target_power_kw = max_power,
                 inv_current_power_kw = 0\<rparr>"

record boiler =
  boiler_power_kw :: real

definition boiler_hooks :: "boiler hooks" where
  "boiler_hooks =
     \<lparr>on_start = (\<lambda>d. d),
      on_stop = (\<lambda>d. d\<lparr>boiler_power_kw := 0\<rparr>),
      on_fault = (\<lambda>fcode d. d\<lparr>boiler_power_kw := 0\<rparr>)\<rparr>"

definition init_boiler :: "boiler asset" where
  "init_boiler = init_asset \<lparr>boiler_power_kw = 0\<rparr>"

record battery =
  battery_power_kw :: real
  attr_battery_state :: string

definition battery_hooks :: "battery hooks" where
  "battery_hooks =
     \<lparr>on_start = (\<lambda>d. d\<lparr>attr_battery_state := state_value RUNNING\<rparr>),
      on_stop = (\<lambda>d. (d\<lparr>battery_power_kw := 0\<rparr>)\<lparr>attr_battery_state := state_value IDLE\<rparr>),
      on_fault = (\<lambda>fcode d. (d\<lparr>battery_power_kw := 0\<rparr>)
                                \<lparr>attr_battery_state := state_value FAULT\<rparr>)\<rparr>"

definition init_battery :: "battery asset" where
  "init_battery =
     init_asset \<lparr>battery_power_kw = 0, attr_battery_state = state_value IDLE\<rparr>"

definition battery_state :: "battery asset \<Rightarrow> string" where
  "battery_state a = attr_battery_state (driver a)"

definition battery_stop :: "battery asset \<Rightarrow> battery asset" where
  "battery_stop a =
     (let a1 = a\<lparr>driver := (driver a)\<lparr>battery_power_kw := 0\<rparr>\<rparr>
      in a1\<lparr>driver := (driver a1)\<lparr>attr_battery_state := state_value IDLE\<rparr>\<rparr>)"

fun battery_apply_op :: "battery asset \<Rightarrow> asset_op \<Rightarrow> battery asset" where
  "battery_apply_op a Start = start battery_hooks a"
| "battery_apply_op a Stop = battery_stop a"
| "battery_apply_op a (Fault fcode) = fault battery_hooks fcode a"
| "battery_apply_op a Reset = reset a"

definition battery_run_ops :: "battery asset \<Rightarrow> asset_op list \<Rightarrow> battery asset" where
  "battery_run_ops a ops = foldl battery_apply_op a ops"

section \<open>Values exchanged with the transport\<close>

text \<open>
  Payloads are what \<open>json.loads\<close> returns: a \<open>json\<close> value. A Python dict with string
  keys is \<open>JDict\<close>, an association list in insertion order, read with \<open>map_of\<close> and
  written with \<open>AList.update\<close> (an existing key keeps its place, a new key goes to the
  end, as in a Python dict). A Python int is \<open>JInt\<close>. A Python float is \<open>JFloat\<close> of the
  real number it denotes (no NaN, no infinity); comparison, negation and absolute
  value are exact on floats, and the arithmetic that rounds is defined with the
  aggregator. \<open>json.loads (json.dumps v)\<close> is taken to be \<open>v\<close>.

  An exception is its class name and the text \<open>str(exc)\<close> returns.
\<close>

datatype json = JNull | JBool bool | JInt int | JFloat real | JStr string
  | JList "json list" | JDict "(string \<times> json) list"

datatype py_exc = PyExc (exc_class: string) (exc_str: string)

text \<open>\<open>str(i)\<close> for a Python int, as the f-strings of the source format it.\<close>

definition digit_char :: "nat \<Rightarrow> char" where
  "digit_char n = ''0123456789'' ! n"

fun str_nat :: "nat \<Rightarrow> string" where
  "str_nat n = (if n < 10 then [digit_char n] else str_nat (n div 10) @ [digit_char (n mod 10)])"

declare str_nat.simps [simp del]

definition str_int :: "int \<Rightarrow> string" where
  "str_int i = (if i < 0 then CHR ''-'' # str_nat (nat (- i)) else str_nat (nat i))"

section \<open>Command dispatcher (controller-module/src/dispatcher.py)\<close>

text \<open>
  \<open>CommandDispatcher.send\<close> calls \<open>self._client.invoke_method\<close> with the four keyword
  arguments of a \<open>call\<close>. The client is any \<open>BaseEdgeClient\<close>: a transport is a function
  from the client's state and the call to an outcome (\<open>Inl\<close> the exception raised,
  \<open>Inr\<close> the dict returned) and the client's next state. Only exceptions that
  \<open>except Exception\<close> catches are outcomes; cancellation of the calling task is not a
  failure of the transport.

  \<open>send_loop\<close> is the \<open>for attempt in range(1, self._max_retries + 2)\<close> loop with
  \<open>attempt\<close> and \<open>last_exc\<close> as arguments; leaving the loop raises the
  \<open>RuntimeError\<close> built by \<open>command_failed\<close>. \<open>max_retries\<close> is a Python int, so it may
  be negative, and then the loop body never runs. \<open>asyncio.sleep(RETRY_DELAY_S)\<close>
  between attempts and the logging calls do not change any value and are left out.
\<close>

record call =
  target_module_id :: string
  method_name :: string
  payload :: json
  timeout_s :: int

type_synonym 's transport = "'s \<Rightarrow> call \<Rightarrow> (py_exc + json) \<times> 's"

definition str_exc_opt :: "py_exc option \<Rightarrow> string" where
  "str_exc_opt e = (case e of None \<Rightarrow> ''None'' | Some x \<Rightarrow> exc_str x)"

definition command_failed :: "call \<Rightarrow> int \<Rightarrow> py_exc option \<Rightarrow> py_exc" where
  "command_failed c max_retries last_exc =
     PyExc ''RuntimeError''
       (''Command '' @ method_name c @ '' to '' @ target_module_id c @ '' failed after ''
          @ str_int (max_retries + 1) @ '' attempts: '' @ str_exc_opt last_exc)"

function send_loop ::
  "'s transport \<Rightarrow> int \<Rightarrow> call \<Rightarrow> int \<Rightarrow> py_exc option \<Rightarrow> 's \<Rightarrow> (py_exc + json) \<times> 's" where
  "send_loop tr max_retries c attempt last_exc s =
     (if attempt < max_retries + 2 then
        (case tr s c of
           (Inr result, s') \<Rightarrow> (Inr result, s')
         | (Inl exc, s') \<Rightarrow> send_loop tr max_retries c (attempt + 1) (Some exc) s')
      else (Inl (command_failed c max_retries last_exc), s))"
  by pat_completeness auto
termination
  by (relation "measure (\<lambda>(tr, max_retries, c, attempt, last_exc, s).
                   nat (max_retries + 2 - attempt))") auto

declare send_loop.simps [simp del]

definition send :: "'s transport \<Rightarrow> int \<Rightarrow> call \<Rightarrow> 's \<Rightarrow> (py_exc + json) \<times> 's" where
  "send tr max_retries c s = send_loop tr max_retries c 1 None s"

text \<open>
  To count invocations the transport is wrapped as the tests wrap it in a mock:
  \<open>logged tr\<close> behaves as \<open>tr\<close> and appends every call it receives to a list.
  \<open>invoke_n tr c n s\<close> is the client's state after \<open>n\<close> invocations of \<open>c\<close> from \<open>s\<close>, and
  \<open>outcome_at tr c s k\<close> the outcome of invocation number \<open>k + 1\<close>.
\<close>

definition logged :: "'s transport \<Rightarrow> (call list \<times> 's) transport" where
  "logged tr = (\<lambda>(lg, s) c. case tr s c of (r, s') \<Rightarrow> (r, (lg @ [c], s')))"

fun invoke_n :: "'s transport \<Rightarrow> call \<Rightarrow> nat \<Rightarrow> 's \<Rightarrow> 's" where
  "invoke_n tr c 0 s = s"
| "invoke_n tr c (Suc n) s = invoke_n tr c n (snd (tr s c))"

definition outcome_at :: "'s transport \<Rightarrow> call \<Rightarrow> 's \<Rightarrow> nat \<Rightarrow> py_exc + json" where
  "outcome_at tr c s k = fst (tr (invoke_n tr c k s) c)"

section \<open>Local transport (shared/iot_edge_base/client.py)\<close>

subsection \<open>String and dict operations of Python used by the client\<close>

text \<open>\<open>sep in s\<close> for strings.\<close>

fun contains :: "string \<Rightarrow> string \<Rightarrow> bool" where
  "contains sep [] = (sep = [])"
| "contains sep (c # cs) = (prefix sep (c # cs) \<or> contains sep cs)"

text \<open>
  \<open>after_last sep s\<close> is the text after the rightmost occurrence of \<open>sep\<close> in \<open>s\<close>, if
  there is one; \<open>s.rsplit(sep, 1)[-1]\<close> is that text, or \<open>s\<close> itself when \<open>sep\<close> does not
  occur.
\<close>

fun after_last :: "string \<Rightarrow> string \<Rightarrow> string option" where
  "after_last sep [] = (if sep = [] then Some [] else None)"
| "after_last sep (c # cs) =
     (case after_last sep cs of
        Some r \<Rightarrow> Some r
      | None \<Rightarrow> if prefix sep (c # cs) then Some (drop (length sep) (c # cs)) else None)"

definition rsplit_last :: "string \<Rightarrow> string \<Rightarrow> string" where
  "rsplit_last sep s = (case after_last sep s of Some r \<Rightarrow> r | None \<Rightarrow> s)"

text \<open>\<open>s.split("/")[0]\<close>.\<close>

definition split_first :: "string \<Rightarrow> string" where
  "split_first s = takeWhile (\<lambda>ch. ch \<noteq> CHR ''/'') s"

definition py_type_name :: "json \<Rightarrow> string" where
  "py_type_name v = (case v of JNull \<Rightarrow> ''NoneType'' | JBool b \<Rightarrow> ''bool'' | JInt i \<Rightarrow> ''int''
     | JFloat x \<Rightarrow> ''float'' | JStr t \<Rightarrow> ''str'' | JList xs \<Rightarrow> ''list'' | JDict kvs \<Rightarrow> ''dict'')"

definition no_attribute :: "json \<Rightarrow> string \<Rightarrow> py_exc" where
  "no_attribute v name = PyExc ''AttributeError''
     ([CHR 0x27] @ py_type_name v @ [CHR 0x27] @ '' object has no attribute ''
        @ [CHR 0x27] @ name @ [CHR 0x27])"

text \<open>\<open>d.get(k, dflt)\<close> and \<open>d.pop(k, dflt)\<close> on a decoded payload, which need not be a dict.\<close>

definition py_get :: "json \<Rightarrow> string \<Rightarrow> json \<Rightarrow> py_exc + json" where
  "py_get d k dflt =
     (case d of
        JDict kvs \<Rightarrow> Inr (case map_of kvs k of Some v \<Rightarrow> v | None \<Rightarrow> dflt)
      | _ \<Rightarrow> Inl (no_attribute d ''get''))"

definition py_pop :: "json \<Rightarrow> string \<Rightarrow> json \<Rightarrow> py_exc + (json \<times> json)" where
  "py_pop d k dflt =
     (case d of
        JDict kvs \<Rightarrow> Inr (case map_of kvs k of Some v \<Rightarrow> v | None \<Rightarrow> dflt,
                          JDict (AList.delete k kvs))
      | JList xs \<Rightarrow> Inl (PyExc ''TypeError'' ''pop expected at most 1 argument, got 2'')
      | _ \<Rightarrow> Inl (no_attribute d ''pop''))"

subsection \<open>Client state\<close>

text \<open>
  \<open>asyncio.Future\<close> objects live in a heap: \<open>futures\<close> maps the address of a future to
  its state and \<open>next_future\<close> is the next free address. \<open>pending\<close> is the dict
  \<open>self._pending\<close> from request id to future (its address): the dict and the coroutine
  that awaits the future refer to the same object. The two flags say whether
  \<open>on_method\<close> and \<open>on_message\<close> have registered a handler; the handlers themselves are
  code outside the client and are not run here (\<open>dispatched\<close> records what they are
  called with), and they do not touch \<open>self._pending\<close>.
\<close>

datatype future = Pending | Finished json | Cancelled

definition fut_done :: "future \<Rightarrow> bool" where
  "fut_done fu = (fu \<noteq> Pending)"

record client =
  module_id :: string
  pending :: "string \<rightharpoonup> nat"
  futures :: "nat \<Rightarrow> future"
  next_future :: nat
  has_method_handler :: bool
  has_message_handler :: bool

definition init_client :: "string \<Rightarrow> client" where
  "init_client m = \<lparr>module_id = m, pending = Map.empty, futures = (\<lambda>a. Cancelled),
                     next_future = 0, has_method_handler = False, has_message_handler = False\<rparr>"

record DirectMethodRequest =
  req_request_id :: json
  req_name :: string
  req_payload :: json

record DirectMethodResponse =
  request_id :: string
  status :: int
  resp_payload :: json

subsection \<open>Inbound dispatch\<close>

datatype dispatched =
    Resolved
  | Ignored
  | MethodRequest DirectMethodRequest
  | Message json string

definition response_sep :: string where
  "response_sep = ''/methods/response/''"

text \<open>
  \<open>_dispatch(topic, payload)\<close>. \<open>pid\<close> stands for \<open>id(payload)\<close>, which the default request
  id of an incoming method call is built from. The result says what was done:
  \<open>Resolved\<close> (a pending future got its result), \<open>Ignored\<close> (nothing to do),
  \<open>MethodRequest req\<close> (the method handler is awaited with \<open>req\<close> and its response goes to
  \<open>send_method_response\<close>), \<open>Message payload input_name\<close> (the message handler is awaited
  with these arguments), or the exception raised.
\<close>

definition dispatch :: "client \<Rightarrow> int \<Rightarrow> string \<Rightarrow> json \<Rightarrow> (py_exc + dispatched) \<times> client" where
  "dispatch st pid topic pl =
     (if contains response_sep topic then
        (let request_id = rsplit_last response_sep topic;
             fut = pending st request_id;
             st1 = st\<lparr>pending := (pending st)(request_id := None)\<rparr>
         in case fut of
              None \<Rightarrow> (Inr Ignored, st1)
            | Some f \<Rightarrow>
                if \<not> fut_done (futures st1 f) then
                  (case py_get pl ''payload'' (JDict []) of
                     Inl e \<Rightarrow> (Inl e, st1)
                   | Inr v \<Rightarrow> (Inr Resolved, st1\<lparr>futures := (futures st1)(f := Finished v)\<rparr>))
                else (Inr Ignored, st1))
      else if contains (''edge/'' @ module_id st @ ''/methods/'') topic then
        (let name = rsplit_last ''/methods/'' topic
         in if has_method_handler st then
              (case py_pop pl ''_request_id'' (JStr (name @ ''-'' @ str_int pid)) of
                 Inl e \<Rightarrow> (Inl e, st)
               | Inr (rid, pl') \<Rightarrow>
                   (Inr (MethodRequest \<lparr>req_request_id = rid, req_name = name,
                                        req_payload = pl'\<rparr>), st))
            else (Inr Ignored, st))
      else if has_message_handler st then
        (let input_name =
               (if contains ''/outputs/'' topic then rsplit_last ''/outputs/'' topic
                else if contains ''/inputs/'' topic
                  then split_first (rsplit_last ''/inputs/'' topic)
                else ''default'')
         in (Inr (Message pl input_name), st))
      else (Inr Ignored, st))"

text \<open>
  \<open>send_method_response\<close>: the topic and the body handed to the broker.
\<close>

definition send_method_response :: "client \<Rightarrow> DirectMethodResponse \<Rightarrow> string \<times> json" where
  "send_method_response st response =
     (''edge/'' @ module_id st @ ''/methods/response/'' @ request_id response,
      JDict [(''status'', JInt (status response)), (''payload'', resp_payload response)])"

subsection \<open>Outbound method invocation\<close>

text \<open>
  \<open>invoke_method\<close> suspends at \<open>await asyncio.wait_for(future, timeout=timeout_s)\<close>, so it is
  two functions. \<open>invoke_begin\<close> runs up to the suspension: \<open>now\<close> is the text of
  \<open>loop.time()\<close> formatted with \<open>:.6f\<close>, \<open>pub\<close> the exception raised by
  \<open>self._client.publish\<close>, if any. It returns the request id, the address of the future
  and the message published. \<open>invoke_finish\<close> is the resumption: \<open>wait_for\<close> returns the
  result of a finished future; with the future still pending the caller is resumed only
  once the deadline has passed, \<open>wait_for\<close> cancels the future and raises
  \<open>TimeoutError\<close>, and the handler pops the request id and raises \<open>RuntimeError\<close>; a
  future cancelled by someone else raises \<open>CancelledError\<close>, which no handler catches.
\<close>

definition timed_out :: "call \<Rightarrow> py_exc" where
  "timed_out c = PyExc ''RuntimeError''
     (''Method '' @ method_name c @ '' on '' @ target_module_id c @ '' timed out after ''
        @ str_int (timeout_s c) @ ''s'')"

definition invoke_begin ::
  "client \<Rightarrow> call \<Rightarrow> string \<Rightarrow> py_exc option
     \<Rightarrow> (py_exc + string \<times> nat \<times> string \<times> json) \<times> client" where
  "invoke_begin st c now pub =
     (let rid = method_name c @ ''-'' @ now
      in case payload c of
           JDict kvs \<Rightarrow>
             (let outgoing = JDict (AList.update ''_request_id'' (JStr rid) kvs);
                  topic = ''edge/'' @ target_module_id c @ ''/methods/'' @ method_name c;
                  f = next_future st;
                  st1 = st\<lparr>futures := (futures st)(f := Pending), next_future := Suc f\<rparr>;
                  st2 = st1\<lparr>pending := (pending st1)(rid \<mapsto> f)\<rparr>
              in case pub of
                   Some e \<Rightarrow> (Inl e, st2)
                 | None \<Rightarrow> (Inr (rid, f, topic, outgoing), st2))
         | v \<Rightarrow> (Inl (PyExc ''TypeError''
                    ([CHR 0x27] @ py_type_name v @ [CHR 0x27] @ '' object is not a mapping'')), st))"

definition invoke_finish :: "client \<Rightarrow> call \<Rightarrow> string \<Rightarrow> nat \<Rightarrow> (py_exc + json) \<times> client" where
  "invoke_finish st c rid f =
     (case futures st f of
        Finished v \<Rightarrow> (Inr v, st)
      | Pending \<Rightarrow>
          (let st1 = st\<lparr>futures := (futures st)(f := Cancelled)\<rparr>;
               st2 = st1\<lparr>pending := (pending st1)(rid := None)\<rparr>
           in (Inl (timed_out c), st2))
      | Cancelled \<Rightarrow> (Inl (PyExc ''CancelledError'' ''''), st))"

text \<open>
  What can happen to a client: the listener delivers a message (\<open>None\<close> for a payload that
  \<open>json.loads\<close> rejects, which \<open>_listen_loop\<close> skips), a coroutine enters \<open>invoke_method\<close>,
  or a suspended \<open>invoke_method\<close> is resumed. An exception out of \<open>_dispatch\<close> ends the
  listener task, after which nothing more is delivered; a list of events may go on
  delivering, which only adds behaviours.
\<close>

datatype event =
    Deliver int string "json option"
  | Begin call string "py_exc option"
  | Finish call string nat

fun step :: "client \<Rightarrow> event \<Rightarrow> client" where
  "step st (Deliver pid topic None) = st"
| "step st (Deliver pid topic (Some pl)) = snd (dispatch st pid topic pl)"
| "step st (Begin c now pub) = snd (invoke_begin st c now pub)"
| "step st (Finish c rid f) = snd (invoke_finish st c rid f)"

definition run :: "client \<Rightarrow> event list \<Rightarrow> client" where
  "run st evs = foldl step st evs"

text \<open>
  A whole \<open>invoke_method\<close>: \<open>evs\<close> are the events that happen to the client while this
  call is suspended.
\<close>

definition invoke_method ::
  "client \<Rightarrow> call \<Rightarrow> string \<Rightarrow> py_exc option \<Rightarrow> event list \<Rightarrow> (py_exc + json) \<times> client" where
  "invoke_method st c now pub evs =
     (case invoke_begin st c now pub of
        (Inl e, st1) \<Rightarrow> (Inl e, st1)
      | (Inr (rid, f, msg), st1) \<Rightarrow> invoke_finish (run st1 evs) c rid f)"

subsection \<open>Notions used to state properties of the transport\<close>

text \<open>
  A topic is a response addressed to \<open>rid\<close> when \<open>_dispatch\<close> takes its first branch and
  extracts \<open>rid\<close> from it. In a well-formed client every future named in \<open>pending\<close> has
  been created. \<open>call_inv rid f\<close> describes an outstanding call: its future \<open>f\<close> is
  pending and \<open>pending\<close> names it under no other request id than \<open>rid\<close>. \<open>ok_event rid f\<close>
  holds for every event that is not a response addressed to \<open>rid\<close> and not the
  resumption of the call that owns \<open>f\<close>. \<open>local_transport env\<close> makes the client a
  transport for the dispatcher: invocation number \<open>n\<close> happens in the environment
  \<open>env n\<close> (clock text, outcome of the publish, events while suspended).
\<close>

definition is_response_for :: "string \<Rightarrow> string \<Rightarrow> bool" where
  "is_response_for rid topic =
     (contains response_sep topic \<and> rsplit_last response_sep topic = rid)"

definition wf_client :: "client \<Rightarrow> bool" where
  "wf_client st = (\<forall>k v. pending st k = Some v \<longrightarrow> v < next_future st)"

definition call_inv :: "string \<Rightarrow> nat \<Rightarrow> client \<Rightarrow> bool" where
  "call_inv rid f st =
     (futures st f = Pending \<and> f < next_future st
      \<and> (\<forall>k. pending st k = Some f \<longrightarrow> k = rid))"

fun ok_event :: "string \<Rightarrow> nat \<Rightarrow> event \<Rightarrow> bool" where
  "ok_event rid f (Deliver pid topic pl) = (\<not> is_response_for rid topic)"
| "ok_event rid f (Begin c now pub) = True"
| "ok_event rid f (Finish c r g) = (g \<noteq> f)"

type_synonym env = "nat \<Rightarrow> string \<times> py_exc option \<times> event list"

definition local_transport :: "env \<Rightarrow> (client \<times> nat) transport" where
  "local_transport env =
     (\<lambda>(st, n) c. case env n of
        (now, pub, evs) \<Rightarrow>
          (case invoke_method st c now pub evs of (r, st') \<Rightarrow> (r, (st', Suc n))))"

section \<open>Asset registry (controller-module/src/registry.py)\<close>

text \<open>
  Four built-ins of Python are not defined here and are parameters of the model, held
  in a record: \<open>float(s)\<close> on a string (\<open>None\<close> when it raises \<open>ValueError\<close>), the
  format \<open>:.1f\<close> of a float, \<open>str\<close> of a float, list or dict, and \<open>sum\<close> over two or
  more floats, which is one addition per item in CPython up to 3.11 and a compensated
  sum from 3.12 on (the repository fixes no interpreter).
\<close>

record python =
  float_of_str :: "string \<Rightarrow> real option"
  format_1f :: "real \<Rightarrow> string"
  str_other :: "json \<Rightarrow> string"
  float_sum :: "real list \<Rightarrow> real"

text \<open>\<open>float(v)\<close>.\<close>

definition py_float :: "python \<Rightarrow> json \<Rightarrow> py_exc + real" where
  "py_float py v =
     (case v of
        JFloat x \<Rightarrow> Inr x
      | JInt i \<Rightarrow> Inr (of_int i)
      | JBool b \<Rightarrow> Inr (if b then 1 else 0)
      | JStr s \<Rightarrow>
          (case float_of_str py s of
             Some x \<Rightarrow> Inr x
           | None \<Rightarrow> Inl (PyExc ''ValueError'' (''could not convert string to float: ''
                                 @ [CHR 0x27] @ s @ [CHR 0x27])))
      | _ \<Rightarrow> Inl (PyExc ''TypeError''
                 (''float() argument must be a string or a real number, not ''
                    @ [CHR 0x27] @ py_type_name v @ [CHR 0x27])))"

text \<open>\<open>str(v)\<close>, as an f-string formats a value.\<close>

definition py_str :: "python \<Rightarrow> json \<Rightarrow> string" where
  "py_str py v =
     (case v of
        JStr s \<Rightarrow> s
      | JNull \<Rightarrow> ''None''
      | JBool b \<Rightarrow> (if b then ''True'' else ''False'')
      | JInt i \<Rightarrow> str_int i
      | _ \<Rightarrow> str_other py v)"

text \<open>Truth value of \<open>v\<close>, as \<open>if not asset_id\<close> tests it.\<close>

definition py_truthy :: "json \<Rightarrow> bool" where
  "py_truthy v =
     (case v of
        JNull \<Rightarrow> False
      | JBool b \<Rightarrow> b
      | JInt i \<Rightarrow> i \<noteq> 0
      | JFloat x \<Rightarrow> x \<noteq> 0
      | JStr s \<Rightarrow> s \<noteq> []
      | JList xs \<Rightarrow> xs \<noteq> []
      | JDict kvs \<Rightarrow> kvs \<noteq> [])"

text \<open>
  A dict key: lists and dicts are unhashable; \<open>True\<close>, \<open>1\<close> and \<open>1.0\<close> are one key.
  \<open>py_key\<close> gives the representative under which the model stores a hashable value.
\<close>

definition hashable :: "json \<Rightarrow> bool" where
  "hashable v = (case v of JList xs \<Rightarrow> False | JDict kvs \<Rightarrow> False | _ \<Rightarrow> True)"

definition py_key :: "json \<Rightarrow> json" where
  "py_key v =
     (case v of
        JBool b \<Rightarrow> JInt (if b then 1 else 0)
      | JFloat x \<Rightarrow> (if x = of_int \<lfloor>x\<rfloor> then JInt \<lfloor>x\<rfloor> else JFloat x)
      | _ \<Rightarrow> v)"

text \<open>\<open>data.get(k, dflt)\<close> on a dict.\<close>

definition dict_get :: "(string \<times> json) list \<Rightarrow> string \<Rightarrow> json \<Rightarrow> json" where
  "dict_get data k dflt = (case map_of data k of Some v \<Rightarrow> v | None \<Rightarrow> dflt)"

record AssetSnapshot =
  asset_id :: json
  asset_type :: json
  snapshot_state :: json
  power_kw :: real
  last_seen :: json
  raw :: "(string \<times> json) list"

definition extract_power_kw :: "python \<Rightarrow> (string \<times> json) list \<Rightarrow> py_exc + real" where
  "extract_power_kw py data =
     (let a_type = dict_get data ''asset_type'' (JStr '''')
      in if a_type = JStr ''solar_inverter'' then
           py_float py (dict_get data ''power_output_kw'' (JFloat 0))
         else if a_type = JStr ''battery_storage'' then
           map_sum id uminus (py_float py (dict_get data ''power_kw'' (JFloat 0)))
         else if a_type = JStr ''industrial_boiler'' then
           map_sum id uminus (py_float py (dict_get data ''power_kw'' (JFloat 0)))
         else py_float py (dict_get data ''power_kw''
                             (dict_get data ''power_output_kw'' (JFloat 0))))"

text \<open>
  \<open>AssetRegistry._assets\<close> is a dict from asset id to snapshot: an association list in
  insertion order, keyed by \<open>py_key\<close> of the id. \<open>update\<close> returns the registry after the
  call, or the exception raised (the registry is then as before). \<open>now\<close> is the text of
  \<open>datetime.now(timezone.utc).isoformat()\<close> at the call. The lock is left out: a call
  runs without interleaving.
\<close>

type_synonym registry = "(json \<times> AssetSnapshot) list"

definition update :: "python \<Rightarrow> string \<Rightarrow> (string \<times> json) list \<Rightarrow> registry \<Rightarrow> py_exc + registry" where
  "update py now data reg =
     (case map_of data ''asset_id'' of
        None \<Rightarrow> Inr reg
      | Some aid \<Rightarrow>
          if \<not> py_truthy aid then Inr reg
          else
            (case extract_power_kw py data of
               Inl e \<Rightarrow> Inl e
             | Inr p \<Rightarrow>
                 (let snapshot = \<lparr>asset_id = aid,
                                  asset_type = dict_get data ''asset_type'' (JStr ''unknown''),
                                  snapshot_state = dict_get data ''state'' (JStr ''UNKNOWN''),
                                  power_kw = p,
                                  last_seen = dict_get data ''timestamp'' (JStr now),
                                  raw = data\<rparr>
                  in if hashable aid then Inr (AList.update (py_key aid) snapshot reg)
                     else Inl (PyExc ''TypeError''
                                 (''unhashable type: '' @ [CHR 0x27] @ py_type_name aid
                                    @ [CHR 0x27])))))"

definition get_all :: "registry \<Rightarrow> AssetSnapshot list" where
  "get_all reg = map snd reg"

definition get :: "registry \<Rightarrow> json \<Rightarrow> py_exc + AssetSnapshot option" where
  "get reg aid =
     (if hashable aid then Inr (map_of reg (py_key aid))
      else Inl (PyExc ''TypeError''
                  (''unhashable type: '' @ [CHR 0x27] @ py_type_name aid @ [CHR 0x27])))"

definition count :: "registry \<Rightarrow> nat" where
  "count reg = length reg"

section \<open>Aggregator (controller-module/src/aggregator.py)\<close>

text \<open>
  Float arithmetic. \<open>double_round x\<close> is the binary64 number nearest to the real \<open>x\<close>,
  ties to the even significand (the rounding of IEEE 754): around \<open>x\<close> the binary64
  numbers are the multiples of \<open>2 powi (e - 52)\<close>, where \<open>e\<close> is \<open>\<lfloor>log 2 \<bar>x\<bar>\<rfloor>\<close>, and
  \<open>- 1022\<close> for a smaller \<open>x\<close>. A result of magnitude \<open>2 ^ 1024\<close> or more is an
  infinity in Python and outside the model. \<open>x + y\<close> and \<open>x - y\<close> on floats are the
  rounded sum and difference. \<open>round(x, 2)\<close> on a float is the decimal with two digits
  nearest to \<open>x\<close>, ties to the even digit, converted to a float.

  \<open>sum(...)\<close> starts from the int \<open>0\<close>: over no item it is \<open>0\<close>, and over one float it
  is that float, \<open>0 + x\<close> being exact. Over two or more floats it is the float sum of
  the interpreter, the parameter \<open>float_sum\<close>; \<open>plain_sum\<close> is the one of CPython up to
  3.11, an addition per item from left to right.
\<close>

definition round_half_even :: "real \<Rightarrow> int" where
  "round_half_even x =
     (let f = \<lfloor>x\<rfloor>; d = x - of_int f
      in if d < 1 / 2 then f
         else if 1 / 2 < d then f + 1
         else if even f then f else f + 1)"

definition double_ulp_exponent :: "real \<Rightarrow> int" where
  "double_ulp_exponent x = max \<lfloor>log 2 \<bar>x\<bar>\<rfloor> (- 1022) - 52"

definition double_round :: "real \<Rightarrow> real" where
  "double_round x =
     (if x = 0 then 0
      else of_int (round_half_even (x / 2 powi double_ulp_exponent x))
             * 2 powi double_ulp_exponent x)"

definition float_add :: "real \<Rightarrow> real \<Rightarrow> real" where
  "float_add x y = double_round (x + y)"

definition float_sub :: "real \<Rightarrow> real \<Rightarrow> real" where
  "float_sub x y = double_round (x - y)"

definition plain_sum :: "real list \<Rightarrow> real" where
  "plain_sum xs = foldl float_add 0 xs"

definition py_sum :: "python \<Rightarrow> real list \<Rightarrow> real" where
  "py_sum py xs = (case xs of [] \<Rightarrow> 0 | [x] \<Rightarrow> x | _ \<Rightarrow> float_sum py xs)"

definition py_round2 :: "real \<Rightarrow> real" where
  "py_round2 x = double_round (of_int (round_half_even (x * 100)) / 100)"

text \<open>
  \<open>Aggregator\<close> holds the two attributes set by \<open>__init__\<close>. \<open>compute\<close> takes the text of
  \<open>datetime.now(timezone.utc).isoformat()\<close> as \<open>now\<close>. The source turns each \<open>GridAlert\<close>
  of the result into a dict of its four fields; the model keeps the records.
\<close>

record GridAlert =
  severity :: string
  code :: string
  message :: string
  alert_asset_id :: "json option"

record AggregatedTelemetry =
  device_id :: string
  timestamp :: string
  total_generation_kw :: real
  total_consumption_kw :: real
  grid_balance_kw :: real
  asset_count :: nat
  assets :: "(json \<times> (string \<times> json) list) list"
  alerts :: "GridAlert list"

record Aggregator =
  agg_device_id :: string
  surplus_threshold_kw :: real

text \<open>The dash of the two balance messages, in UTF-8.\<close>

definition em_dash :: string where
  "em_dash = [CHR 0xE2, CHR 0x80, CHR 0x94]"

definition fault_alerts :: "python \<Rightarrow> AssetSnapshot list \<Rightarrow> GridAlert list" where
  "fault_alerts py snapshots =
     map (\<lambda>s. \<lparr>severity = ''critical'', code = ''ASSET_FAULT'',
                message = ''Asset '' @ py_str py (asset_id s) @ '' ('' @ py_str py (asset_type s)
                            @ '') is in FAULT state'',
                alert_asset_id = Some (asset_id s)\<rparr>)
         (filter (\<lambda>s. snapshot_state s = JStr ''FAULT'') snapshots)"

definition check_alerts :: "python \<Rightarrow> Aggregator \<Rightarrow> AssetSnapshot list \<Rightarrow> real \<Rightarrow> GridAlert list" where
  "check_alerts py self snapshots balance =
     (let alerts0 = fault_alerts py snapshots;
          alerts1 = (if balance > surplus_threshold_kw self then
                       alerts0 @ [\<lparr>severity = ''warning'', code = ''GRID_SURPLUS'',
                          message = ''Grid surplus of '' @ format_1f py balance @ '' kW '' @ em_dash
                            @ '' consider increasing battery charging or curtailing solar'',
                          alert_asset_id = None\<rparr>]
                     else alerts0);
          alerts2 = (if balance < - surplus_threshold_kw self then
                       alerts1 @ [\<lparr>severity = ''warning'', code = ''GRID_DEFICIT'',
                          message = ''Grid deficit of '' @ format_1f py \<bar>balance\<bar> @ '' kW ''
                            @ em_dash @ '' consider discharging battery'',
                          alert_asset_id = None\<rparr>]
                     else alerts1)
      in alerts2)"

definition compute :: "python \<Rightarrow> string \<Rightarrow> Aggregator \<Rightarrow> registry \<Rightarrow> AggregatedTelemetry" where
  "compute py now self reg =
     (let snapshots = get_all reg;
          generation = py_sum py (map power_kw (filter (\<lambda>s. power_kw s > 0) snapshots));
          consumption = py_sum py (map (\<lambda>s. \<bar>power_kw s\<bar>)
                                      (filter (\<lambda>s. power_kw s < 0) snapshots));
          balance = float_sub generation consumption;
          alerts_found = check_alerts py self snapshots balance
      in \<lparr>device_id = agg_device_id self,
          timestamp = now,
          total_generation_kw = py_round2 generation,
          total_consumption_kw = py_round2 consumption,
          grid_balance_kw = py_round2 balance,
          asset_count = length snapshots,
          assets = foldl (\<lambda>d s. AList.update (py_key (asset_id s))
                              [(''state'', snapshot_state s), (''power_kw'', JFloat (power_kw s)),
                               (''asset_type'', asset_type s)] d) [] snapshots,
          alerts = alerts_found\<rparr>)"


text \<open>
  \<open>erase_last_seen\<close> forgets the \<open>last_seen\<close> field of every snapshot: two registries with
  the same image hold the same assets in the same order and differ at most in when each
  was last seen. \<open>balance_alerts\<close> are the alerts other than the asset faults.
\<close>

definition erase_last_seen :: "registry \<Rightarrow> registry" where
  "erase_last_seen reg = map (\<lambda>(k, s). (k, s\<lparr>last_seen := JNull\<rparr>)) reg"

definition balance_alerts :: "GridAlert list \<Rightarrow> GridAlert list" where
  "balance_alerts als = filter (\<lambda>a. code a \<noteq> ''ASSET_FAULT'') als"

section \<open>Proofs: asset state machine\<close>

lemma fault_inv_init: "fault_inv (init_asset d)"
  by (simp add: fault_inv_def init_asset_def)

lemma fault_inv_apply_op: "fault_inv a \<Longrightarrow> fault_inv (apply_op h a x)"
  by (cases x)
     (auto simp: fault_inv_def start_def start_enter_def start_resume_def stop_def fault_def
                 reset_def Let_def)

lemma fault_inv_foldl: "fault_inv a \<Longrightarrow> fault_inv (foldl (apply_op h) a ops)"
  by (induction ops arbitrary: a) (simp_all add: fault_inv_apply_op)

text \<open>
  What \<open>BaseAsset\<close> itself keeps: when every call is awaited to its end before the
  next, \<open>fault_code\<close> is set exactly when \<open>_state\<close> is FAULT, for every hooks.
\<close>

lemma base_fault_inv:
  "(fault_code (run_ops h (init_asset d) ops) \<noteq> None)
     = (state (run_ops h (init_asset d) ops) = FAULT)"
proof -
  have "fault_inv (run_ops h (init_asset d) ops)"
    unfolding run_ops_def by (rule fault_inv_foldl [OF fault_inv_init])
  then show ?thesis by (simp add: fault_inv_def state_def fault_code_def)
qed

lemma base_fault_then_reset:
  "state (fault h fcode a) = FAULT \<and> fault_code (fault h fcode a) = Some fcode
   \<and> state (reset (fault h fcode a)) = IDLE \<and> fault_code (reset (fault h fcode a)) = None"
  by (simp add: state_def fault_code_def fault_def reset_def Let_def)

lemma base_start_in_FAULT:
  "state a = FAULT \<Longrightarrow> \<not> lock_held a \<Longrightarrow>
     start h a = a \<and> (state (apply_op h a x) \<noteq> FAULT \<longrightarrow> x = Reset)"
  by (cases x)
     (simp_all add: state_def start_def start_enter_def stop_def fault_def reset_def Let_def)

text \<open>
  The inverter and the boiler inherit all of this; for the inverter,
  \<open>fault('OVERCURRENT')\<close> followed by \<open>reset()\<close> gives IDLE and no fault code, as its
  unit test \<open>test_reset_from_fault_returns_to_idle\<close> asserts.
\<close>

lemma inverter_fault_then_reset:
  "state (run_ops inverter_hooks (init_inverter 100) [Fault ''OVERCURRENT'', Reset]) = IDLE
   \<and> fault_code (run_ops inverter_hooks (init_inverter 100) [Fault ''OVERCURRENT'', Reset])
       = None"
  by (simp add: run_ops_def state_def fault_code_def init_inverter_def init_asset_def
                fault_def reset_def Let_def)

text \<open>
  \<open>fault()\<close> takes no lock. Run while a \<open>start()\<close> is suspended in its hook, it sets
  FAULT and the code; the \<open>start()\<close> then resumes and assigns RUNNING: the asset is
  RUNNING with a fault code, and FAULT was left without \<open>reset()\<close>.
\<close>

lemma fault_during_start:
  "run_segments h (init_asset d) [Start_call, Fault_call fcode, Start_resume]
     = Some \<lparr>attr_state = RUNNING, attr_fault_code = Some fcode, lock_held = False,
              driver = on_start h (on_fault h fcode d)\<rparr>"
  by (simp add: init_asset_def start_enter_def start_resume_def fault_def Let_def)

text \<open>
  Claim C8. On a \<open>BatteryStorage\<close>, \<open>fault('E1')\<close> records the code and the state is
  FAULT, but a \<open>reset()\<close> after it leaves the state FAULT with no fault code:
  \<open>reset()\<close> clears \<open>_state\<close> and \<open>_fault_code\<close>, not the \<open>_battery_state\<close> that
  \<open>_on_fault\<close> set and that the property \<open>state\<close> returns. \<open>fault('E1')\<close> followed by
  \<open>stop()\<close> leaves the state IDLE with the fault code still present. And on an
  inverter, a \<open>fault('E1')\<close> that runs while \<open>start()\<close> is suspended in its hook ends,
  once \<open>start()\<close> has resumed, in RUNNING with the fault code present. In each case
  the fault code is not present exactly when the state is FAULT.
\<close>

theorem battery_fault_code_without_FAULT:
  "battery_state (battery_run_ops init_battery [Fault ''E1'']) = ''FAULT''
   \<and> fault_code (battery_run_ops init_battery [Fault ''E1'']) = Some ''E1''
   \<and> battery_state (battery_run_ops init_battery [Fault ''E1'', Reset]) = ''FAULT''
   \<and> fault_code (battery_run_ops init_battery [Fault ''E1'', Reset]) = None
   \<and> battery_state (battery_run_ops init_battery [Fault ''E1'', Stop]) = ''IDLE''
   \<and> fault_code (battery_run_ops init_battery [Fault ''E1'', Stop]) = Some ''E1''
   \<and> map_option state (run_segments inverter_hooks (init_inverter 100)
         [Start_call, Fault_call ''E1'', Start_resume]) = Some RUNNING
   \<and> map_option fault_code (run_segments inverter_hooks (init_inverter 100)
         [Start_call, Fault_call ''E1'', Start_resume]) = Some (Some ''E1'')"
  by (simp add: battery_run_ops_def init_battery_def init_asset_def battery_state_def
                fault_code_def state_def battery_hooks_def battery_stop_def fault_def reset_def
                init_inverter_def start_enter_def start_resume_def Let_def)

text \<open>
  Claim C10. On a \<open>BatteryStorage\<close> in FAULT, \<open>stop()\<close> leaves FAULT (the state is IDLE
  afterwards) and \<open>reset()\<close> does not (the state is still FAULT). After that \<open>reset()\<close>
  the asset is in FAULT and \<open>start()\<close> is not a no-op: it runs the start sequence and
  the state is RUNNING. And on an inverter put in FAULT while a \<open>start()\<close> is
  suspended in its hook, that \<open>start()\<close> resumes and leaves FAULT for RUNNING, with
  no \<open>reset()\<close>.
\<close>

theorem battery_leaves_FAULT_without_reset:
  "battery_state (battery_run_ops init_battery [Fault ''E1'']) = ''FAULT''
   \<and> battery_state (battery_run_ops init_battery [Fault ''E1'', Stop]) = ''IDLE''
   \<and> battery_state (battery_run_ops init_battery [Fault ''E1'', Reset]) = ''FAULT''
   \<and> battery_state (battery_run_ops init_battery [Fault ''E1'', Reset, Start]) = ''RUNNING''
   \<and> battery_run_ops init_battery [Fault ''E1'', Reset, Start]
       \<noteq> battery_run_ops init_battery [Fault ''E1'', Reset]
   \<and> map_option state (run_segments inverter_hooks (init_inverter 100)
         [Start_call, Fault_call ''E1'']) = Some FAULT
   \<and> map_option state (run_segments inverter_hooks (init_inverter 100)
         [Start_call, Fault_call ''E1'', Start_resume]) = Some RUNNING"
  by (simp add: battery_run_ops_def init_battery_def init_asset_def battery_state_def
                state_def battery_hooks_def battery_stop_def fault_def reset_def start_def
                init_inverter_def start_enter_def start_resume_def Let_def)


section \<open>Proofs: command dispatcher\<close>

lemma outcome_at_Suc: "outcome_at tr c s (Suc k) = outcome_at tr c (snd (tr s c)) k"
  by (simp add: outcome_at_def)

lemma outcome_at_0: "outcome_at tr c s 0 = fst (tr s c)"
  by (simp add: outcome_at_def)

text \<open>A run of \<open>n\<close> failures followed by a success, entered at any attempt number.\<close>

lemma send_loop_success:
  "attempt + int n < max_retries + 2 \<Longrightarrow>
   (\<forall>k<n. isl (outcome_at tr c s k)) \<Longrightarrow>
   outcome_at tr c s n = Inr p \<Longrightarrow>
   send_loop (logged tr) max_retries c attempt last_exc (lg, s)
     = (Inr p, (lg @ replicate (Suc n) c, invoke_n tr c (Suc n) s))"
proof (induction n arbitrary: attempt last_exc lg s)
  case 0
  then show ?case
    by (cases "tr s c") (simp add: send_loop.simps [of _ _ _ attempt] logged_def outcome_at_0)
next
  case (Suc n)
  from Suc.prems(2) have f0: "isl (outcome_at tr c s 0)" by blast
  obtain e s' where tr: "tr s c = (Inl e, s')"
    using f0 by (cases "tr s c") (auto simp: outcome_at_0 isl_def)
  have rest: "\<forall>k<n. isl (outcome_at tr c s' k)"
  proof (intro allI impI)
    fix k assume "k < n"
    then have "isl (outcome_at tr c s (Suc k))" using Suc.prems(2) by simp
    then show "isl (outcome_at tr c s' k)" using tr by (simp add: outcome_at_Suc)
  qed
  have last: "outcome_at tr c s' n = Inr p"
    using Suc.prems(3) tr by (simp add: outcome_at_Suc)
  have "send_loop (logged tr) max_retries c (attempt + 1) (Some e) (lg @ [c], s')
          = (Inr p, ((lg @ [c]) @ replicate (Suc n) c, invoke_n tr c (Suc n) s'))"
    using Suc.prems(1) by (intro Suc.IH rest last) simp
  then show ?case
    using Suc.prems(1) tr
    by (simp add: send_loop.simps [of _ _ _ attempt] logged_def replicate_app_Cons_same)
qed

text \<open>A run of failures that uses up the range of the loop.\<close>

lemma send_loop_exhausted:
  "attempt + int n = max_retries + 2 \<Longrightarrow>
   (\<forall>k<n. isl (outcome_at tr c s k)) \<Longrightarrow>
   send_loop (logged tr) max_retries c attempt last_exc (lg, s)
     = (Inl (command_failed c max_retries
               (if n = 0 then last_exc else Some (projl (outcome_at tr c s (n - 1))))),
        (lg @ replicate n c, invoke_n tr c n s))"
proof (induction n arbitrary: attempt last_exc lg s)
  case 0
  then show ?case
    by (subst send_loop.simps) simp
next
  case (Suc n)
  from Suc.prems(2) have f0: "isl (outcome_at tr c s 0)" by blast
  obtain e s' where tr: "tr s c = (Inl e, s')"
    using f0 by (cases "tr s c") (auto simp: outcome_at_0 isl_def)
  have rest: "\<forall>k<n. isl (outcome_at tr c s' k)"
  proof (intro allI impI)
    fix k assume "k < n"
    then have "isl (outcome_at tr c s (Suc k))" using Suc.prems(2) by simp
    then show "isl (outcome_at tr c s' k)" using tr by (simp add: outcome_at_Suc)
  qed
  have step: "send_loop (logged tr) max_retries c (attempt + 1) (Some e) (lg @ [c], s')
          = (Inl (command_failed c max_retries
               (if n = 0 then Some e else Some (projl (outcome_at tr c s' (n - 1))))),
             ((lg @ [c]) @ replicate n c, invoke_n tr c n s'))"
    using Suc.prems(1) by (intro Suc.IH rest) simp
  have lastexc: "(if n = 0 then Some e else Some (projl (outcome_at tr c s' (n - 1))))
                  = Some (projl (outcome_at tr c s (Suc n - 1)))"
    using tr by (cases n) (simp_all add: outcome_at_0 outcome_at_Suc)
  show ?case
    using Suc.prems(1) tr step lastexc
    by (simp add: send_loop.simps [of _ _ _ attempt] logged_def replicate_app_Cons_same)
qed

text \<open>With a negative \<open>max_retries\<close> the range is empty: nothing is invoked.\<close>

lemma send_negative_retries:
  "max_retries < 0 \<Longrightarrow>
   send (logged tr) max_retries c ([], s) = (Inl (command_failed c max_retries None), ([], s))"
  unfolding send_def by (subst send_loop.simps) simp

text \<open>
  Claim C1. For every call (module id, method name, payload, timeout) and every
  transport: if the first \<open>N - 1\<close> invocations raise and invocation \<open>N\<close> returns \<open>p\<close>, with
  \<open>1 \<le> N \<le> max_retries + 1\<close>, then \<open>send\<close> returns \<open>p\<close> and the transport has been invoked
  exactly \<open>N\<close> times, each time with the arguments of the call. If every invocation
  raises, \<open>send\<close> raises a \<open>RuntimeError\<close> after exactly \<open>max_retries + 1\<close> invocations; its
  message names the method, the module and the count \<open>max_retries + 1\<close> and ends with the
  text of the exception raised by the last invocation. \<open>max_retries\<close> is the number of
  retries, so it is not negative (\<open>send_negative_retries\<close> gives the other case).
\<close>

theorem send_bounded_retry:
  "(1 \<le> N \<and> int N \<le> max_retries + 1
      \<and> (\<forall>k<N - 1. isl (outcome_at tr c s k)) \<and> outcome_at tr c s (N - 1) = Inr p
     \<longrightarrow> send (logged tr) max_retries c ([], s) = (Inr p, (replicate N c, invoke_n tr c N s))
         \<and> length (fst (snd (send (logged tr) max_retries c ([], s)))) = N)
   \<and> (0 \<le> max_retries \<and> (\<forall>k. isl (outcome_at tr c s k))
     \<longrightarrow> send (logged tr) max_retries c ([], s)
           = (Inl (PyExc ''RuntimeError''
                 (''Command '' @ method_name c @ '' to '' @ target_module_id c
                    @ '' failed after '' @ str_int (max_retries + 1) @ '' attempts: ''
                    @ exc_str (projl (outcome_at tr c s (nat max_retries))))),
              (replicate (nat (max_retries + 1)) c, invoke_n tr c (nat (max_retries + 1)) s))
         \<and> int (length (fst (snd (send (logged tr) max_retries c ([], s))))) = max_retries + 1)"
proof (intro conjI impI)
  assume h: "1 \<le> N \<and> int N \<le> max_retries + 1
      \<and> (\<forall>k<N - 1. isl (outcome_at tr c s k)) \<and> outcome_at tr c s (N - 1) = Inr p"
  then obtain n where N: "N = Suc n" by (cases N) auto
  have "send_loop (logged tr) max_retries c 1 None ([], s)
          = (Inr p, ([] @ replicate (Suc n) c, invoke_n tr c (Suc n) s))"
    using h N by (intro send_loop_success) auto
  then show ok: "send (logged tr) max_retries c ([], s)
                   = (Inr p, (replicate N c, invoke_n tr c N s))"
    by (simp add: send_def N)
  show "length (fst (snd (send (logged tr) max_retries c ([], s)))) = N"
    by (simp add: ok)
next
  assume h: "0 \<le> max_retries \<and> (\<forall>k. isl (outcome_at tr c s k))"
  define n where "n = nat (max_retries + 1)"
  have n: "n = Suc (nat max_retries)" "int n = max_retries + 1"
    using h by (auto simp: n_def)
  have "send_loop (logged tr) max_retries c 1 None ([], s)
          = (Inl (command_failed c max_retries
               (if n = 0 then None else Some (projl (outcome_at tr c s (n - 1))))),
             ([] @ replicate n c, invoke_n tr c n s))"
    using h n by (intro send_loop_exhausted) auto
  then show bad: "send (logged tr) max_retries c ([], s)
           = (Inl (PyExc ''RuntimeError''
                 (''Command '' @ method_name c @ '' to '' @ target_module_id c
                    @ '' failed after '' @ str_int (max_retries + 1) @ '' attempts: ''
                    @ exc_str (projl (outcome_at tr c s (nat max_retries))))),
              (replicate (nat (max_retries + 1)) c, invoke_n tr c (nat (max_retries + 1)) s))"
    using n by (simp add: send_def command_failed_def str_exc_opt_def n_def)
  show "int (length (fst (snd (send (logged tr) max_retries c ([], s))))) = max_retries + 1"
    using h by (simp add: bad)
qed

theorem send_bounded_retry_witness:
  "send (logged (\<lambda>s c. (if s < Suc 0 then Inl (PyExc ''Exception'' ''transient'')
                          else Inr (JDict [(''status'', JStr ''ok'')]), Suc s)))
        1 \<lparr>target_module_id = ''solar-module'', method_name = ''start'',
            payload = JDict [], timeout_s = 10\<rparr> ([], 0)
     = (Inr (JDict [(''status'', JStr ''ok'')]),
        ([\<lparr>target_module_id = ''solar-module'', method_name = ''start'',
            payload = JDict [], timeout_s = 10\<rparr>,
          \<lparr>target_module_id = ''solar-module'', method_name = ''start'',
            payload = JDict [], timeout_s = 10\<rparr>], 2))
   \<and> send (logged (\<lambda>s c. (Inl (PyExc ''Exception'' ''permanent failure''), s)))
        1 \<lparr>target_module_id = ''solar-module'', method_name = ''start'',
            payload = JDict [], timeout_s = 10\<rparr> ([], ())
     = (Inl (PyExc ''RuntimeError''
               ''Command start to solar-module failed after 2 attempts: permanent failure''),
        ([\<lparr>target_module_id = ''solar-module'', method_name = ''start'',
            payload = JDict [], timeout_s = 10\<rparr>,
          \<lparr>target_module_id = ''solar-module'', method_name = ''start'',
            payload = JDict [], timeout_s = 10\<rparr>], ()))"
  using send_bounded_retry
      [of 2 1 "\<lambda>s c. (if s < Suc 0 then Inl (PyExc ''Exception'' ''transient'')
                          else Inr (JDict [(''status'', JStr ''ok'')]), Suc s)"
          "\<lparr>target_module_id = ''solar-module'', method_name = ''start'',
            payload = JDict [], timeout_s = 10\<rparr>" "0::nat" "JDict [(''status'', JStr ''ok'')]"]
    send_bounded_retry
      [of 0 1 "\<lambda>s c. (Inl (PyExc ''Exception'' ''permanent failure''), s)"
          "\<lparr>target_module_id = ''solar-module'', method_name = ''start'',
            payload = JDict [], timeout_s = 10\<rparr>" "()" "JNull"]
  by (simp add: outcome_at_def numeral_2_eq_2 str_int_def str_nat.simps digit_char_def)

section \<open>Proofs: local transport\<close>

lemma after_last_None: "(after_last sep s = None) = (\<not> contains sep s)"
  by (induction s) (auto split: option.splits)

lemma contains_append: "contains sep (pre @ sep @ r)"
proof (induction pre)
  case Nil
  show ?case
  proof (cases "sep @ r")
    case Nil
    then show ?thesis by simp
  next
    case (Cons a list)
    have "prefix sep (sep @ r)" by simp
    then show ?thesis by (simp add: Cons)
  qed
next
  case (Cons a pre)
  then show ?case by simp
qed

lemma after_last_append:
  "after_last sep s = Some r \<Longrightarrow> after_last sep (pre @ s) = Some r"
  by (induction pre) auto

lemma after_last_sep:
  assumes "sep \<noteq> []" "\<not> contains sep (tl sep @ r)"
  shows "after_last sep (sep @ r) = Some r"
proof -
  obtain a as where sep: "sep = a # as" using assms(1) by (cases sep) auto
  have "after_last sep (as @ r) = None"
    using assms(2) by (simp add: after_last_None sep)
  then have "after_last sep (a # (as @ r)) = Some (drop (length sep) (a # (as @ r)))"
    by (simp add: sep)
  then show ?thesis by (simp add: sep)
qed

lemma rsplit_last_topic:
  "sep \<noteq> [] \<Longrightarrow> \<not> contains sep (tl sep @ r) \<Longrightarrow> rsplit_last sep (pre @ sep @ r) = r"
  by (simp add: rsplit_last_def after_last_append [OF after_last_sep])

lemma response_topic_is_for:
  "\<not> contains response_sep (tl response_sep @ rid) \<Longrightarrow>
   is_response_for rid (''edge/'' @ m @ ''/methods/response/'' @ rid)"
  unfolding is_response_for_def
  using contains_append [of response_sep "''edge/'' @ m" rid]
        rsplit_last_topic [of response_sep rid "''edge/'' @ m"]
  by (simp add: response_sep_def)

lemma client_pending_same: "st\<lparr>pending := pending st\<rparr> = st"
  by simp

lemma dispatch_unregistered:
  "pending st rid = None \<Longrightarrow> is_response_for rid topic \<Longrightarrow>
   dispatch st pid topic pl = (Inr Ignored, st)"
proof -
  assume a: "pending st rid = None" "is_response_for rid topic"
  have "(pending st)(rid := None) = pending st"
    using a(1) by (simp add: fun_upd_idem_iff)
  then have "st\<lparr>pending := (pending st)(rid := None)\<rparr> = st" by simp
  then show ?thesis
    using a by (simp add: dispatch_def is_response_for_def Let_def)
qed

lemma dispatch_other_pending:
  "\<not> is_response_for rid topic \<Longrightarrow> pending (snd (dispatch st pid topic pl)) rid = pending st rid"
  by (auto simp: dispatch_def is_response_for_def Let_def split: option.splits sum.splits prod.splits)

lemma dispatch_other_future:
  "\<not> is_response_for rid topic \<Longrightarrow> \<forall>k. pending st k = Some f \<longrightarrow> k = rid \<Longrightarrow>
   futures (snd (dispatch st pid topic pl)) f = futures st f"
  by (auto simp: dispatch_def is_response_for_def Let_def split: option.splits sum.splits prod.splits)

lemma dispatch_next_future: "next_future (snd (dispatch st pid topic pl)) = next_future st"
  by (auto simp: dispatch_def Let_def split: option.splits sum.splits prod.splits)

lemma dispatch_pending_sub:
  "pending (snd (dispatch st pid topic pl)) k = Some v \<Longrightarrow> pending st k = Some v"
  by (auto simp: dispatch_def Let_def split: option.splits sum.splits prod.splits if_splits)

lemma dispatch_matching:
  "pending st rid = Some f \<Longrightarrow> futures st f = Pending \<Longrightarrow> is_response_for rid topic \<Longrightarrow>
   dispatch st pid topic (JDict kvs)
     = (Inr Resolved,
        st\<lparr>pending := (pending st)(rid := None),
           futures := (futures st)(f := Finished (case map_of kvs ''payload'' of
                                                    Some v \<Rightarrow> v | None \<Rightarrow> JDict []))\<rparr>)"
  by (simp add: dispatch_def is_response_for_def Let_def fut_done_def py_get_def)


lemma wf_init: "wf_client (init_client m)"
  by (simp add: wf_client_def init_client_def)

lemma wf_step: "wf_client st \<Longrightarrow> wf_client (step st ev)"
proof (cases ev)
  case (Deliver pid topic pl)
  assume wf: "wf_client st"
  show ?thesis
  proof (cases pl)
    case None
    then show ?thesis using wf Deliver by simp
  next
    case (Some v)
    then show ?thesis
      using wf Deliver dispatch_pending_sub [of st pid topic v]
      by (auto simp: wf_client_def dispatch_next_future)
  qed
next
  case (Begin c now pub)
  assume wf: "wf_client st"
  then show ?thesis
    using Begin
    by (auto simp: wf_client_def invoke_begin_def Let_def less_Suc_eq
             split: json.splits option.splits if_splits)
next
  case (Finish c r g)
  assume wf: "wf_client st"
  then show ?thesis
    using Finish
    by (auto simp: wf_client_def invoke_finish_def Let_def split: future.splits if_splits)
qed

lemma wf_run: "wf_client st \<Longrightarrow> wf_client (run st evs)"
  unfolding run_def by (induction evs arbitrary: st) (simp_all add: wf_step)

lemma call_inv_step:
  assumes "call_inv rid f st" "ok_event rid f ev"
  shows "call_inv rid f (step st ev)"
proof (cases ev)
  case (Deliver pid topic pl)
  show ?thesis
  proof (cases pl)
    case None
    then show ?thesis using assms Deliver by simp
  next
    case (Some v)
    have nr: "\<not> is_response_for rid topic" using assms(2) Deliver by simp
    have only: "\<forall>k. pending st k = Some f \<longrightarrow> k = rid"
      using assms(1) by (simp add: call_inv_def)
    have "futures (snd (dispatch st pid topic v)) f = Pending"
      using dispatch_other_future [OF nr only] assms(1) by (simp add: call_inv_def)
    moreover have "\<forall>k. pending (snd (dispatch st pid topic v)) k = Some f \<longrightarrow> k = rid"
      using only dispatch_pending_sub [of st pid topic v] by blast
    ultimately show ?thesis
      using assms(1) Deliver Some by (simp add: call_inv_def dispatch_next_future)
  qed
next
  case (Begin c now pub)
  then show ?thesis
    using assms(1)
    by (auto simp: call_inv_def invoke_begin_def Let_def
             split: json.splits option.splits if_splits)
next
  case (Finish c r g)
  then show ?thesis
    using assms
    by (auto simp: call_inv_def invoke_finish_def Let_def split: future.splits if_splits)
qed

lemma call_inv_run:
  "call_inv rid f st \<Longrightarrow> \<forall>ev\<in>set evs. ok_event rid f ev \<Longrightarrow> call_inv rid f (run st evs)"
  unfolding run_def by (induction evs arbitrary: st) (simp_all add: call_inv_step)

lemma invoke_begin_ok:
  "payload c = JDict kvs \<Longrightarrow>
   invoke_begin st c now None
     = (Inr (method_name c @ ''-'' @ now, next_future st,
             ''edge/'' @ target_module_id c @ ''/methods/'' @ method_name c,
             JDict (AList.update ''_request_id'' (JStr (method_name c @ ''-'' @ now)) kvs)),
        st\<lparr>futures := (futures st)(next_future st := Pending),
           next_future := Suc (next_future st),
           pending := (pending st)(method_name c @ ''-'' @ now \<mapsto> next_future st)\<rparr>)"
  by (simp add: invoke_begin_def Let_def)

lemma invoke_begin_outstanding:
  assumes "wf_client st" "payload c = JDict kvs"
  shows "call_inv (method_name c @ ''-'' @ now) (next_future st)
           (snd (invoke_begin st c now None))"
    and "pending (snd (invoke_begin st c now None)) (method_name c @ ''-'' @ now)
           = Some (next_future st)"
  using assms by (auto simp: invoke_begin_ok call_inv_def wf_client_def)

lemma invoke_finish_timeout:
  "futures st f = Pending \<Longrightarrow>
   invoke_finish st c rid f
     = (Inl (timed_out c),
        st\<lparr>futures := (futures st)(f := Cancelled), pending := (pending st)(rid := None)\<rparr>)"
  by (simp add: invoke_finish_def Let_def)

text \<open>
  Claim C2. A call is issued from a well-formed client (its payload is a dict and the
  publish succeeds). If nothing that happens while it is suspended is a response
  addressed to its request id (other messages, other calls beginning, other calls
  resuming), then \<open>invoke_method\<close> raises the \<open>RuntimeError\<close> that reports the timeout, the
  request id is no longer in \<open>pending\<close> and the future is cancelled. A response addressed
  to that request id and delivered afterwards, whatever its payload, raises nothing
  and changes nothing; this holds in every state in which the request id is not in
  \<open>pending\<close>.
\<close>

theorem call_times_out:
  assumes "wf_client st" and "payload c = JDict kvs"
    and "rid = method_name c @ ''-'' @ now"
    and "\<forall>ev\<in>set evs. ok_event rid (next_future st) ev"
  shows "fst (invoke_method st c now None evs)
           = Inl (PyExc ''RuntimeError''
                   (''Method '' @ method_name c @ '' on '' @ target_module_id c
                      @ '' timed out after '' @ str_int (timeout_s c) @ ''s''))
         \<and> pending (snd (invoke_method st c now None evs)) rid = None
         \<and> futures (snd (invoke_method st c now None evs)) (next_future st) = Cancelled
         \<and> (is_response_for rid topic \<longrightarrow>
              dispatch (snd (invoke_method st c now None evs)) pid topic pl
                = (Inr Ignored, snd (invoke_method st c now None evs)))
         \<and> (\<forall>st'. pending st' rid = None \<and> is_response_for rid topic \<longrightarrow>
              dispatch st' pid topic pl = (Inr Ignored, st'))"
proof -
  let ?f = "next_future st"
  let ?st1 = "snd (invoke_begin st c now None)"
  have inv: "call_inv rid ?f (run ?st1 evs)"
    using invoke_begin_outstanding(1) [OF assms(1,2), of now] assms(3,4)
    by (intro call_inv_run) simp_all
  then have pend: "futures (run ?st1 evs) ?f = Pending" by (simp add: call_inv_def)
  have im: "invoke_method st c now None evs = invoke_finish (run ?st1 evs) c rid ?f"
    using assms(2,3) by (simp add: invoke_method_def invoke_begin_ok)
  have res: "invoke_method st c now None evs
        = (Inl (timed_out c),
           (run ?st1 evs)\<lparr>futures := (futures (run ?st1 evs))(?f := Cancelled),
                           pending := (pending (run ?st1 evs))(rid := None)\<rparr>)"
    by (simp add: im invoke_finish_timeout [OF pend])
  have gone: "pending (snd (invoke_method st c now None evs)) rid = None"
    by (simp add: res)
  show ?thesis
    using gone dispatch_unregistered [of _ rid topic pid pl]
    by (auto simp: res timed_out_def)
qed


theorem call_times_out_witness:
  "wf_client (init_client ''controller-module'')
   \<and> ok_event ''start-12.500000'' 0
         (Deliver 1 ''edge/solar-module/outputs/telemetry''
            (Some (JDict [(''asset_id'', JStr ''solar-01'')])))
   \<and> ok_event ''start-12.500000'' 0
         (Deliver 2 ''edge/boiler-module/methods/response/stop-3.000000''
            (Some (JDict [(''status'', JInt 200), (''payload'', JDict [])])))
   \<and> fst (invoke_method (init_client ''controller-module'')
            \<lparr>target_module_id = ''battery-module'', method_name = ''start'',
               payload = JDict [], timeout_s = 10\<rparr> ''12.500000'' None
            [Deliver 1 ''edge/solar-module/outputs/telemetry''
               (Some (JDict [(''asset_id'', JStr ''solar-01'')])),
             Deliver 2 ''edge/boiler-module/methods/response/stop-3.000000''
               (Some (JDict [(''status'', JInt 200), (''payload'', JDict [])]))])
       = Inl (PyExc ''RuntimeError'' ''Method start on battery-module timed out after 10s'')
   \<and> pending (snd (invoke_method (init_client ''controller-module'')
            \<lparr>target_module_id = ''battery-module'', method_name = ''start'',
               payload = JDict [], timeout_s = 10\<rparr> ''12.500000'' None
            [Deliver 1 ''edge/solar-module/outputs/telemetry''
               (Some (JDict [(''asset_id'', JStr ''solar-01'')])),
             Deliver 2 ''edge/boiler-module/methods/response/stop-3.000000''
               (Some (JDict [(''status'', JInt 200), (''payload'', JDict [])]))]))
        ''start-12.500000'' = None
   \<and> is_response_for ''start-12.500000''
        ''edge/battery-module/methods/response/start-12.500000''
   \<and> fst (dispatch (snd (invoke_method (init_client ''controller-module'')
            \<lparr>target_module_id = ''battery-module'', method_name = ''start'',
               payload = JDict [], timeout_s = 10\<rparr> ''12.500000'' None
            [Deliver 1 ''edge/solar-module/outputs/telemetry''
               (Some (JDict [(''asset_id'', JStr ''solar-01'')])),
             Deliver 2 ''edge/boiler-module/methods/response/stop-3.000000''
               (Some (JDict [(''status'', JInt 200), (''payload'', JDict [])]))]))
          3 ''edge/battery-module/methods/response/start-12.500000''
          (JDict [(''status'', JInt 200), (''payload'', JDict [(''status'', JStr ''started'')])]))
       = Inr Ignored"
proof -
  have wf: "wf_client (init_client ''controller-module'')" by (rule wf_init)
  have ok: "\<forall>ev\<in>set [Deliver 1 ''edge/solar-module/outputs/telemetry''
                      (Some (JDict [(''asset_id'', JStr ''solar-01'')])),
                    Deliver 2 ''edge/boiler-module/methods/response/stop-3.000000''
                      (Some (JDict [(''status'', JInt 200), (''payload'', JDict [])]))].
          ok_event ''start-12.500000'' (next_future (init_client ''controller-module'')) ev"
    by (simp add: is_response_for_def response_sep_def rsplit_last_def init_client_def)
  have isr: "is_response_for ''start-12.500000''
        ''edge/battery-module/methods/response/start-12.500000''"
    by (simp add: is_response_for_def response_sep_def rsplit_last_def)
  show ?thesis
    using call_times_out [OF wf _ _ ok,
        of "\<lparr>target_module_id = ''battery-module'', method_name = ''start'',
               payload = JDict [], timeout_s = 10\<rparr>" "[]" "''12.500000''"
           "''edge/battery-module/methods/response/start-12.500000''" 3
           "JDict [(''status'', JInt 200), (''payload'', JDict [(''status'', JStr ''started'')])]"]
      wf ok isr
    by (simp add: init_client_def str_int_def str_nat.simps digit_char_def)
qed

text \<open>
  Claim C3. An outstanding call has its future \<open>f\<close> pending and registered in \<open>pending\<close>
  under its request id \<open>rid\<close> and under no other id (\<open>invoke_begin_outstanding\<close>: this is
  the state a call is in once issued from a well-formed client). Delivering any
  message that is not a response addressed to \<open>rid\<close>, in particular a response with
  another correlation id, leaves the call registered and its future pending.
  Delivering a response addressed to \<open>rid\<close> (a dict, as \<open>send_method_response\<close> builds
  it) resolves the future with the \<open>payload\<close> field and removes the registration; a
  second response addressed to \<open>rid\<close>, whatever it carries, is ignored and changes
  nothing, so the call is resolved exactly once.
\<close>

theorem response_resolves_once:
  assumes "pending st rid = Some f" and "futures st f = Pending"
    and "\<forall>k. pending st k = Some f \<longrightarrow> k = rid"
  shows "(\<not> is_response_for rid topic \<longrightarrow>
            pending (snd (dispatch st pid topic pl)) rid = Some f
            \<and> futures (snd (dispatch st pid topic pl)) f = Pending)
         \<and> (is_response_for rid topic \<longrightarrow>
            fst (dispatch st pid topic (JDict kvs)) = Inr Resolved
            \<and> futures (snd (dispatch st pid topic (JDict kvs))) f
                = Finished (case map_of kvs ''payload'' of Some v \<Rightarrow> v | None \<Rightarrow> JDict [])
            \<and> pending (snd (dispatch st pid topic (JDict kvs))) rid = None
            \<and> (is_response_for rid topic2 \<longrightarrow>
                 dispatch (snd (dispatch st pid topic (JDict kvs))) pid2 topic2 pl2
                   = (Inr Ignored, snd (dispatch st pid topic (JDict kvs)))))"
proof (intro conjI impI)
  assume nr: "\<not> is_response_for rid topic"
  show "pending (snd (dispatch st pid topic pl)) rid = Some f"
    using dispatch_other_pending [OF nr] assms(1) by simp
  show "futures (snd (dispatch st pid topic pl)) f = Pending"
    using dispatch_other_future [OF nr assms(3)] assms(2) by simp
next
  assume r: "is_response_for rid topic"
  note d = dispatch_matching [OF assms(1,2) r, of pid kvs]
  show "fst (dispatch st pid topic (JDict kvs)) = Inr Resolved" by (simp add: d)
  show "futures (snd (dispatch st pid topic (JDict kvs))) f
          = Finished (case map_of kvs ''payload'' of Some v \<Rightarrow> v | None \<Rightarrow> JDict [])"
    by (simp add: d)
  show gone: "pending (snd (dispatch st pid topic (JDict kvs))) rid = None" by (simp add: d)
  assume r2: "is_response_for rid topic2"
  show "dispatch (snd (dispatch st pid topic (JDict kvs))) pid2 topic2 pl2
          = (Inr Ignored, snd (dispatch st pid topic (JDict kvs)))"
    by (rule dispatch_unregistered [OF gone r2])
qed

theorem response_resolves_once_witness:
  "pending (snd (invoke_begin (init_client ''controller-module'')
       \<lparr>target_module_id = ''battery-module'', method_name = ''start'',
          payload = JDict [], timeout_s = 10\<rparr> ''12.500000'' None)) ''start-12.500000'' = Some 0
   \<and> \<not> is_response_for ''start-12.500000''
          ''edge/battery-module/methods/response/start-99.000000''
   \<and> futures (snd (dispatch (snd (invoke_begin (init_client ''controller-module'')
       \<lparr>target_module_id = ''battery-module'', method_name = ''start'',
          payload = JDict [], timeout_s = 10\<rparr> ''12.500000'' None)) 1
       ''edge/battery-module/methods/response/start-99.000000''
       (JDict [(''status'', JInt 200), (''payload'', JDict [])]))) 0 = Pending
   \<and> is_response_for ''start-12.500000''
          ''edge/battery-module/methods/response/start-12.500000''
   \<and> futures (snd (dispatch (snd (invoke_begin (init_client ''controller-module'')
       \<lparr>target_module_id = ''battery-module'', method_name = ''start'',
          payload = JDict [], timeout_s = 10\<rparr> ''12.500000'' None)) 2
       ''edge/battery-module/methods/response/start-12.500000''
       (JDict [(''status'', JInt 200), (''payload'', JDict [(''status'', JStr ''started'')])])))
       0 = Finished (JDict [(''status'', JStr ''started'')])
   \<and> fst (dispatch (snd (dispatch (snd (invoke_begin (init_client ''controller-module'')
       \<lparr>target_module_id = ''battery-module'', method_name = ''start'',
          payload = JDict [], timeout_s = 10\<rparr> ''12.500000'' None)) 2
       ''edge/battery-module/methods/response/start-12.500000''
       (JDict [(''status'', JInt 200), (''payload'', JDict [(''status'', JStr ''started'')])])))
       3 ''edge/battery-module/methods/response/start-12.500000''
       (JDict [(''status'', JInt 200), (''payload'', JDict [(''status'', JStr ''again'')])]))
      = Inr Ignored"
proof -
  let ?st = "snd (invoke_begin (init_client ''controller-module'')
       \<lparr>target_module_id = ''battery-module'', method_name = ''start'',
          payload = JDict [], timeout_s = 10\<rparr> ''12.500000'' None)"
  have p: "pending ?st ''start-12.500000'' = Some 0"
    by (simp add: invoke_begin_def Let_def init_client_def)
  have fu: "futures ?st 0 = Pending"
    by (simp add: invoke_begin_def Let_def init_client_def)
  have only: "\<forall>k. pending ?st k = Some 0 \<longrightarrow> k = ''start-12.500000''"
    by (simp add: invoke_begin_def Let_def init_client_def)
  have nr: "\<not> is_response_for ''start-12.500000''
          ''edge/battery-module/methods/response/start-99.000000''"
    by (simp add: is_response_for_def response_sep_def rsplit_last_def)
  have r: "is_response_for ''start-12.500000''
          ''edge/battery-module/methods/response/start-12.500000''"
    by (simp add: is_response_for_def response_sep_def rsplit_last_def)
  show ?thesis
    using response_resolves_once [OF p fu only,
        of "''edge/battery-module/methods/response/start-99.000000''" 1
           "JDict [(''status'', JInt 200), (''payload'', JDict [])]"]
      response_resolves_once [OF p fu only,
        of "''edge/battery-module/methods/response/start-12.500000''" 2 JNull
           "[(''status'', JInt 200), (''payload'', JDict [(''status'', JStr ''started'')])]"
           "''edge/battery-module/methods/response/start-12.500000''" 3
           "JDict [(''status'', JInt 200), (''payload'', JDict [(''status'', JStr ''again'')])]"]
      p nr r
    by simp
qed

lemma invoke_method_response:
  assumes "payload c = JDict kvs" and "rid = method_name c @ ''-'' @ now"
    and "is_response_for rid topic"
  shows "invoke_method st c now None [Deliver pid topic (Some (JDict body))]
           = (Inr (case map_of body ''payload'' of Some v \<Rightarrow> v | None \<Rightarrow> JDict []),
              st\<lparr>futures := (futures st)(next_future st :=
                     Finished (case map_of body ''payload'' of Some v \<Rightarrow> v | None \<Rightarrow> JDict [])),
                 next_future := Suc (next_future st),
                 pending := (pending st)(rid := None)\<rparr>)"
proof -
  let ?st1 = "st\<lparr>futures := (futures st)(next_future st := Pending),
           next_future := Suc (next_future st),
           pending := (pending st)(rid \<mapsto> next_future st)\<rparr>"
  have d: "dispatch ?st1 pid topic (JDict body)
       = (Inr Resolved,
          ?st1\<lparr>pending := (pending ?st1)(rid := None),
                futures := (futures ?st1)(next_future st :=
                   Finished (case map_of body ''payload'' of Some v \<Rightarrow> v | None \<Rightarrow> JDict []))\<rparr>)"
    by (rule dispatch_matching) (simp_all add: assms(3))
  have b: "invoke_begin st c now None
        = (Inr (rid, next_future st,
                ''edge/'' @ target_module_id c @ ''/methods/'' @ method_name c,
                JDict (AList.update ''_request_id'' (JStr rid) kvs)), ?st1)"
    unfolding assms(2) by (rule invoke_begin_ok [OF assms(1)])
  have "invoke_method st c now None [Deliver pid topic (Some (JDict body))]
          = invoke_finish (snd (dispatch ?st1 pid topic (JDict body))) c rid (next_future st)"
    by (simp add: invoke_method_def b run_def)
  then show ?thesis
    by (simp add: d invoke_finish_def)
qed

text \<open>
  Claim C9. A method response is what \<open>send_method_response\<close> publishes for a request
  id, a status code and a payload. For every status code (so also for 404, 409 and
  500), delivering it to the caller resolves the pending future with the payload
  alone, \<open>invoke_method\<close> returns that payload, and \<open>send\<close> returns it as its result after
  a single invocation: no retry. The request id must be one that \<open>_dispatch\<close> reads back
  from the response topic, and \<open>max_retries\<close> is not negative.
\<close>

theorem error_status_resolves_as_success:
  assumes "0 \<le> max_retries" and "payload c = JDict kvs"
    and "rid = method_name c @ ''-'' @ now"
    and "\<not> contains response_sep (tl response_sep @ rid)"
    and "send_method_response responder
           \<lparr>request_id = rid, status = scode, resp_payload = p\<rparr> = (topic, body)"
    and "env n = (now, None, [Deliver pid topic (Some body)])"
  shows "fst (dispatch (snd (invoke_begin st c now None)) pid topic body) = Inr Resolved
         \<and> futures (snd (dispatch (snd (invoke_begin st c now None)) pid topic body))
              (next_future st) = Finished p
         \<and> fst (invoke_method st c now None [Deliver pid topic (Some body)]) = Inr p
         \<and> fst (send (logged (local_transport env)) max_retries c ([], (st, n))) = Inr p
         \<and> fst (snd (send (logged (local_transport env)) max_retries c ([], (st, n)))) = [c]"
proof -
  have topic: "topic = ''edge/'' @ module_id responder @ ''/methods/response/'' @ rid"
    and body: "body = JDict [(''status'', JInt scode), (''payload'', p)]"
    using assms(5) by (auto simp: send_method_response_def)
  have r: "is_response_for rid topic"
    unfolding topic by (rule response_topic_is_for [OF assms(4)])
  note im = invoke_method_response [OF assms(2,3) r, of st pid "[(''status'', JInt scode), (''payload'', p)]"]
  have d: "dispatch (snd (invoke_begin st c now None)) pid topic body
       = (Inr Resolved,
          (snd (invoke_begin st c now None))
            \<lparr>pending := (pending (snd (invoke_begin st c now None)))(rid := None),
             futures := (futures (snd (invoke_begin st c now None)))(next_future st := Finished p)\<rparr>)"
    unfolding body
    using dispatch_matching [of "snd (invoke_begin st c now None)" rid "next_future st" topic pid
          "[(''status'', JInt scode), (''payload'', p)]"] r assms(2,3)
    by (simp add: invoke_begin_ok)
  have o: "outcome_at (local_transport env) c (st, n) 0 = Inr p"
    using im assms(6) by (simp add: outcome_at_def local_transport_def body)
  have "send_loop (logged (local_transport env)) max_retries c 1 None ([], (st, n))
          = (Inr p, ([] @ replicate (Suc 0) c, invoke_n (local_transport env) c (Suc 0) (st, n)))"
    using assms(1) o by (intro send_loop_success) simp_all
  then have s: "send (logged (local_transport env)) max_retries c ([], (st, n))
          = (Inr p, ([c], invoke_n (local_transport env) c (Suc 0) (st, n)))"
    by (simp add: send_def)
  show ?thesis
    using im d s by (simp add: body)
qed


theorem error_status_resolves_as_success_witness:
  "\<not> contains response_sep (tl response_sep @ ''set_temperature-12.500000'')
   \<and> send_method_response (init_client ''boiler-module'')
        \<lparr>request_id = ''set_temperature-12.500000'', status = 409,
           resp_payload = JDict [(''error'', JStr ''Cannot set temperature in state IDLE'')]\<rparr>
       = (''edge/boiler-module/methods/response/set_temperature-12.500000'',
          JDict [(''status'', JInt 409),
                 (''payload'', JDict [(''error'', JStr ''Cannot set temperature in state IDLE'')])])
   \<and> fst (send (logged (local_transport (\<lambda>n. (''12.500000'', None,
            [Deliver 1 ''edge/boiler-module/methods/response/set_temperature-12.500000''
               (Some (JDict [(''status'', JInt 409),
                  (''payload'',
                   JDict [(''error'', JStr ''Cannot set temperature in state IDLE'')])]))]))))
          2 \<lparr>target_module_id = ''boiler-module'', method_name = ''set_temperature'',
               payload = JDict [(''target_celsius'', JFloat 80)], timeout_s = 10\<rparr>
          ([], (init_client ''controller-module'', 0)))
       = Inr (JDict [(''error'', JStr ''Cannot set temperature in state IDLE'')])
   \<and> fst (snd (send (logged (local_transport (\<lambda>n. (''12.500000'', None,
            [Deliver 1 ''edge/boiler-module/methods/response/set_temperature-12.500000''
               (Some (JDict [(''status'', JInt 409),
                  (''payload'',
                   JDict [(''error'', JStr ''Cannot set temperature in state IDLE'')])]))]))))
          2 \<lparr>target_module_id = ''boiler-module'', method_name = ''set_temperature'',
               payload = JDict [(''target_celsius'', JFloat 80)], timeout_s = 10\<rparr>
          ([], (init_client ''controller-module'', 0))))
       = [\<lparr>target_module_id = ''boiler-module'', method_name = ''set_temperature'',
               payload = JDict [(''target_celsius'', JFloat 80)], timeout_s = 10\<rparr>]"
proof -
  have nc: "\<not> contains response_sep (tl response_sep @ ''set_temperature-12.500000'')"
    by (simp add: response_sep_def)
  have smr: "send_method_response (init_client ''boiler-module'')
        \<lparr>request_id = ''set_temperature-12.500000'', status = 409,
           resp_payload = JDict [(''error'', JStr ''Cannot set temperature in state IDLE'')]\<rparr>
       = (''edge/boiler-module/methods/response/set_temperature-12.500000'',
          JDict [(''status'', JInt 409),
                 (''payload'', JDict [(''error'', JStr ''Cannot set temperature in state IDLE'')])])"
    by (simp add: send_method_response_def init_client_def)
  show ?thesis
    using error_status_resolves_as_success
      [of 2 "\<lparr>target_module_id = ''boiler-module'', method_name = ''set_temperature'',
               payload = JDict [(''target_celsius'', JFloat 80)], timeout_s = 10\<rparr>"
          "[(''target_celsius'', JFloat 80)]" "''set_temperature-12.500000''" "''12.500000''"
          "init_client ''boiler-module''" 409
          "JDict [(''error'', JStr ''Cannot set temperature in state IDLE'')]"
          "''edge/boiler-module/methods/response/set_temperature-12.500000''"
          "JDict [(''status'', JInt 409),
                 (''payload'', JDict [(''error'', JStr ''Cannot set temperature in state IDLE'')])]"
          "\<lambda>n. (''12.500000'', None,
            [Deliver 1 ''edge/boiler-module/methods/response/set_temperature-12.500000''
               (Some (JDict [(''status'', JInt 409),
                  (''payload'',
                   JDict [(''error'', JStr ''Cannot set temperature in state IDLE'')])]))])"
          0 1 "init_client ''controller-module''", OF _ _ _ nc smr]
      nc smr
    by simp
qed

section \<open>Proofs: asset registry\<close>

lemma update_stored:
  assumes "update py now data reg = Inr reg'" and "map_of data ''asset_id'' = Some aid"
    and "py_truthy aid"
  obtains p where "extract_power_kw py data = Inr p" and "hashable aid"
    and "reg' = AList.update (py_key aid)
                 \<lparr>asset_id = aid,
                  asset_type = dict_get data ''asset_type'' (JStr ''unknown''),
                  snapshot_state = dict_get data ''state'' (JStr ''UNKNOWN''),
                  power_kw = p,
                  last_seen = dict_get data ''timestamp'' (JStr now),
                  raw = data\<rparr> reg"
  using assms by (auto simp: update_def Let_def split: sum.splits if_splits)

lemma get_update:
  "hashable aid \<Longrightarrow> get (AList.update (py_key aid) snap reg) aid = Inr (Some snap)"
  by (simp add: get_def update_conv')

text \<open>
  Claim C6. A telemetry dict that \<open>update\<close> stores (it returns without raising, and the
  dict has a truthy \<open>asset_id\<close>) leaves under that id a snapshot whose power is
  normalised by asset type: for a \<open>solar_inverter\<close> it is \<open>float\<close> of \<open>power_output_kw\<close>
  (absent: 0.0), unchanged; for a \<open>battery_storage\<close> or an \<open>industrial_boiler\<close> it is
  \<open>float\<close> of \<open>power_kw\<close> (absent: 0.0), negated. A float in the dict is stored as it is,
  respectively with its sign changed.
\<close>

theorem update_normalises_power:
  assumes "update py now data reg = Inr reg'" and "map_of data ''asset_id'' = Some aid"
    and "py_truthy aid"
  shows "\<exists>snap. get reg' aid = Inr (Some snap)
     \<and> (map_of data ''asset_type'' = Some (JStr ''solar_inverter'') \<longrightarrow>
          py_float py (dict_get data ''power_output_kw'' (JFloat 0)) = Inr (power_kw snap)
          \<and> (\<forall>x. map_of data ''power_output_kw'' = Some (JFloat x) \<longrightarrow> power_kw snap = x))
     \<and> (map_of data ''asset_type'' = Some (JStr ''battery_storage'')
          \<or> map_of data ''asset_type'' = Some (JStr ''industrial_boiler'') \<longrightarrow>
          py_float py (dict_get data ''power_kw'' (JFloat 0)) = Inr (- power_kw snap)
          \<and> (\<forall>x. map_of data ''power_kw'' = Some (JFloat x) \<longrightarrow> power_kw snap = - x))"
proof -
  from assms obtain p where p: "extract_power_kw py data = Inr p" and h: "hashable aid"
    and reg': "reg' = AList.update (py_key aid)
                 \<lparr>asset_id = aid,
                  asset_type = dict_get data ''asset_type'' (JStr ''unknown''),
                  snapshot_state = dict_get data ''state'' (JStr ''UNKNOWN''),
                  power_kw = p,
                  last_seen = dict_get data ''timestamp'' (JStr now),
                  raw = data\<rparr> reg"
    by (rule update_stored)
  let ?snap = "\<lparr>asset_id = aid,
                  asset_type = dict_get data ''asset_type'' (JStr ''unknown''),
                  snapshot_state = dict_get data ''state'' (JStr ''UNKNOWN''),
                  power_kw = p,
                  last_seen = dict_get data ''timestamp'' (JStr now),
                  raw = data\<rparr>"
  have g: "get reg' aid = Inr (Some ?snap)"
    unfolding reg' by (rule get_update [OF h])
  have solar: "map_of data ''asset_type'' = Some (JStr ''solar_inverter'') \<longrightarrow>
          py_float py (dict_get data ''power_output_kw'' (JFloat 0)) = Inr p
          \<and> (\<forall>x. map_of data ''power_output_kw'' = Some (JFloat x) \<longrightarrow> p = x)"
    using p by (auto simp: extract_power_kw_def dict_get_def py_float_def Let_def)
  have neg: "map_of data ''asset_type'' = Some (JStr ''battery_storage'')
          \<or> map_of data ''asset_type'' = Some (JStr ''industrial_boiler'') \<longrightarrow>
          py_float py (dict_get data ''power_kw'' (JFloat 0)) = Inr (- p)
          \<and> (\<forall>x. map_of data ''power_kw'' = Some (JFloat x) \<longrightarrow> p = - x)"
    using p
    by (cases "py_float py (dict_get data ''power_kw'' (JFloat 0))")
       (auto simp: extract_power_kw_def dict_get_def py_float_def Let_def)
  show ?thesis
    using g solar neg by (intro exI [of _ ?snap]) simp
qed


theorem update_normalises_power_witness:
  "update \<lparr>float_of_str = (\<lambda>s. None), format_1f = (\<lambda>x. []), str_other = (\<lambda>v. []),
       float_sum = plain_sum\<rparr>
      ''2024-01-01T12:00:05+00:00''
      [(''asset_id'', JStr ''battery-01''), (''asset_type'', JStr ''battery_storage''),
       (''state'', JStr ''CHARGING''), (''power_kw'', JFloat 30),
       (''timestamp'', JStr ''2024-01-01T12:00:00Z'')] []
     = Inr [(JStr ''battery-01'',
             \<lparr>asset_id = JStr ''battery-01'', asset_type = JStr ''battery_storage'',
              snapshot_state = JStr ''CHARGING'', power_kw = - 30,
              last_seen = JStr ''2024-01-01T12:00:00Z'',
              raw = [(''asset_id'', JStr ''battery-01''), (''asset_type'', JStr ''battery_storage''),
                     (''state'', JStr ''CHARGING''), (''power_kw'', JFloat 30),
                     (''timestamp'', JStr ''2024-01-01T12:00:00Z'')]\<rparr>)]
   \<and> py_truthy (JStr ''battery-01'')
   \<and> (\<exists>snap. get [(JStr ''battery-01'',
             \<lparr>asset_id = JStr ''battery-01'', asset_type = JStr ''battery_storage'',
              snapshot_state = JStr ''CHARGING'', power_kw = - 30,
              last_seen = JStr ''2024-01-01T12:00:00Z'',
              raw = [(''asset_id'', JStr ''battery-01''), (''asset_type'', JStr ''battery_storage''),
                     (''state'', JStr ''CHARGING''), (''power_kw'', JFloat 30),
                     (''timestamp'', JStr ''2024-01-01T12:00:00Z'')]\<rparr>)] (JStr ''battery-01'')
          = Inr (Some snap) \<and> power_kw snap = - 30)"
proof -
  let ?py = "\<lparr>float_of_str = (\<lambda>s. None), format_1f = (\<lambda>x. []), str_other = (\<lambda>v. []),
       float_sum = plain_sum\<rparr>"
  let ?d = "[(''asset_id'', JStr ''battery-01''), (''asset_type'', JStr ''battery_storage''),
       (''state'', JStr ''CHARGING''), (''power_kw'', JFloat 30),
       (''timestamp'', JStr ''2024-01-01T12:00:00Z'')]"
  let ?r = "[(JStr ''battery-01'',
             \<lparr>asset_id = JStr ''battery-01'', asset_type = JStr ''battery_storage'',
              snapshot_state = JStr ''CHARGING'', power_kw = - 30,
              last_seen = JStr ''2024-01-01T12:00:00Z'', raw = ?d\<rparr>)]"
  have u: "update ?py ''2024-01-01T12:00:05+00:00'' ?d [] = Inr ?r"
    by (simp add: update_def extract_power_kw_def dict_get_def py_float_def py_truthy_def
                  hashable_def py_key_def Let_def)
  have m: "map_of ?d ''asset_id'' = Some (JStr ''battery-01'')" by simp
  have t: "py_truthy (JStr ''battery-01'')" by (simp add: py_truthy_def)
  show ?thesis
    using update_normalises_power [OF u m t] u t by auto
qed

lemma erase_update:
  "erase_last_seen (AList.update k s reg)
     = AList.update k (s\<lparr>last_seen := JNull\<rparr>) (erase_last_seen reg)"
  by (induction reg) (auto simp: erase_last_seen_def)

lemma length_update_same: "length (AList.update k s' reg) = length (AList.update k s reg)"
  by (induction reg) auto

lemma update_raises_same:
  "update py now1 data reg = Inl e \<Longrightarrow> update py now2 data reg' = Inl e"
  by (auto simp: update_def Let_def split: option.splits sum.splits if_splits)

lemma update_dropped:
  "map_of data ''asset_id'' = None \<or> (\<exists>aid. map_of data ''asset_id'' = Some aid \<and> \<not> py_truthy aid)
   \<Longrightarrow> update py now data reg = Inr reg"
  by (auto simp: update_def)

text \<open>
  Claim C7, as amended. \<open>last_seen\<close> is the dict's \<open>timestamp\<close>, and the clock reading at
  the call when the dict has none. For a dict that carries a \<open>timestamp\<close>, applying
  \<open>update\<close> a second time leaves the registry exactly as the first application left
  it: the same stored snapshot and the same count. For every dict, the second
  application leaves the count unchanged and the registry unchanged up to \<open>last_seen\<close>,
  and the result is the one a single application at the later time gives.
  As stated for every dict the claim fails: a dict with no \<open>timestamp\<close>, applied at two
  clock readings, leaves a different snapshot the second time (shown after the
  theorem).
\<close>

theorem update_idempotent:
  assumes "update py now1 data reg = Inr reg1"
  shows "(map_of data ''timestamp'' \<noteq> None \<longrightarrow> update py now2 data reg1 = Inr reg1)
     \<and> (\<exists>reg2. update py now2 data reg1 = Inr reg2
            \<and> count reg2 = count reg1
            \<and> erase_last_seen reg2 = erase_last_seen reg1
            \<and> update py now2 data reg = Inr reg2)"
proof (cases "\<exists>aid. map_of data ''asset_id'' = Some aid \<and> py_truthy aid")
  case False
  then have d: "map_of data ''asset_id'' = None
      \<or> (\<exists>aid. map_of data ''asset_id'' = Some aid \<and> \<not> py_truthy aid)"
    by (cases "map_of data ''asset_id''") auto
  have "reg1 = reg" using assms update_dropped [OF d, of py now1 reg] by simp
  then show ?thesis using update_dropped [OF d, of py now2 reg] by simp
next
  case True
  then obtain aid where m: "map_of data ''asset_id'' = Some aid" and t: "py_truthy aid"
    by blast
  from assms m t obtain p where p: "extract_power_kw py data = Inr p" and h: "hashable aid"
    and reg1: "reg1 = AList.update (py_key aid)
                 \<lparr>asset_id = aid,
                  asset_type = dict_get data ''asset_type'' (JStr ''unknown''),
                  snapshot_state = dict_get data ''state'' (JStr ''UNKNOWN''),
                  power_kw = p,
                  last_seen = dict_get data ''timestamp'' (JStr now1),
                  raw = data\<rparr> reg"
    by (rule update_stored)
  let ?snap = "\<lambda>now. \<lparr>asset_id = aid,
                  asset_type = dict_get data ''asset_type'' (JStr ''unknown''),
                  snapshot_state = dict_get data ''state'' (JStr ''UNKNOWN''),
                  power_kw = p,
                  last_seen = dict_get data ''timestamp'' (JStr now),
                  raw = data\<rparr>"
  have u: "\<And>r. update py now2 data r = Inr (AList.update (py_key aid) (?snap now2) r)"
    using m t p h by (simp add: update_def Let_def)
  have two: "update py now2 data reg1 = Inr (AList.update (py_key aid) (?snap now2) reg)"
    by (simp add: u reg1 update_last)
  have ts: "map_of data ''timestamp'' \<noteq> None \<longrightarrow> ?snap now2 = ?snap now1"
    by (auto simp: dict_get_def)
  have cnt: "count (AList.update (py_key aid) (?snap now2) reg) = count reg1"
    using length_update_same [of "py_key aid" "?snap now2" reg "?snap now1"]
    by (simp add: count_def reg1)
  have er: "erase_last_seen (AList.update (py_key aid) (?snap now2) reg) = erase_last_seen reg1"
    by (simp add: reg1 erase_update)
  show ?thesis
    using two ts cnt er u [of reg] by (auto simp: reg1)
qed

theorem update_idempotent_witness:
  "update \<lparr>float_of_str = (\<lambda>s. None), format_1f = (\<lambda>x. []), str_other = (\<lambda>v. []),
       float_sum = plain_sum\<rparr>
      ''2024-01-01T12:00:05+00:00''
      [(''asset_id'', JStr ''solar-01''), (''asset_type'', JStr ''solar_inverter''),
       (''state'', JStr ''RUNNING''), (''power_output_kw'', JFloat 50),
       (''timestamp'', JStr ''2024-01-01T12:00:00Z'')] []
     = Inr [(JStr ''solar-01'',
             \<lparr>asset_id = JStr ''solar-01'', asset_type = JStr ''solar_inverter'',
              snapshot_state = JStr ''RUNNING'', power_kw = 50,
              last_seen = JStr ''2024-01-01T12:00:00Z'',
              raw = [(''asset_id'', JStr ''solar-01''), (''asset_type'', JStr ''solar_inverter''),
                     (''state'', JStr ''RUNNING''), (''power_output_kw'', JFloat 50),
                     (''timestamp'', JStr ''2024-01-01T12:00:00Z'')]\<rparr>)]
   \<and> update \<lparr>float_of_str = (\<lambda>s. None), format_1f = (\<lambda>x. []), str_other = (\<lambda>v. []),
       float_sum = plain_sum\<rparr>
      ''2024-01-01T12:00:35+00:00''
      [(''asset_id'', JStr ''solar-01''), (''asset_type'', JStr ''solar_inverter''),
       (''state'', JStr ''RUNNING''), (''power_output_kw'', JFloat 50),
       (''timestamp'', JStr ''2024-01-01T12:00:00Z'')]
      [(JStr ''solar-01'',
             \<lparr>asset_id = JStr ''solar-01'', asset_type = JStr ''solar_inverter'',
              snapshot_state = JStr ''RUNNING'', power_kw = 50,
              last_seen = JStr ''2024-01-01T12:00:00Z'',
              raw = [(''asset_id'', JStr ''solar-01''), (''asset_type'', JStr ''solar_inverter''),
                     (''state'', JStr ''RUNNING''), (''power_output_kw'', JFloat 50),
                     (''timestamp'', JStr ''2024-01-01T12:00:00Z'')]\<rparr>)]
     = Inr [(JStr ''solar-01'',
             \<lparr>asset_id = JStr ''solar-01'', asset_type = JStr ''solar_inverter'',
              snapshot_state = JStr ''RUNNING'', power_kw = 50,
              last_seen = JStr ''2024-01-01T12:00:00Z'',
              raw = [(''asset_id'', JStr ''solar-01''), (''asset_type'', JStr ''solar_inverter''),
                     (''state'', JStr ''RUNNING''), (''power_output_kw'', JFloat 50),
                     (''timestamp'', JStr ''2024-01-01T12:00:00Z'')]\<rparr>)]"
proof -
  let ?py = "\<lparr>float_of_str = (\<lambda>s. None), format_1f = (\<lambda>x. []), str_other = (\<lambda>v. []),
       float_sum = plain_sum\<rparr>"
  let ?d = "[(''asset_id'', JStr ''solar-01''), (''asset_type'', JStr ''solar_inverter''),
       (''state'', JStr ''RUNNING''), (''power_output_kw'', JFloat 50),
       (''timestamp'', JStr ''2024-01-01T12:00:00Z'')]"
  let ?r = "[(JStr ''solar-01'',
             \<lparr>asset_id = JStr ''solar-01'', asset_type = JStr ''solar_inverter'',
              snapshot_state = JStr ''RUNNING'', power_kw = 50,
              last_seen = JStr ''2024-01-01T12:00:00Z'', raw = ?d\<rparr>)]"
  have u: "update ?py ''2024-01-01T12:00:05+00:00'' ?d [] = Inr ?r"
    by (simp add: update_def extract_power_kw_def dict_get_def py_float_def py_truthy_def
                  hashable_def py_key_def Let_def)
  have ts: "map_of ?d ''timestamp'' \<noteq> None" by simp
  show ?thesis
    using update_idempotent [OF u, of "''2024-01-01T12:00:35+00:00''"] u ts by simp
qed

theorem update_twice_differs_counterexample:
  "update \<lparr>float_of_str = (\<lambda>s. None), format_1f = (\<lambda>x. []), str_other = (\<lambda>v. []),
       float_sum = plain_sum\<rparr>
      ''2024-01-01T12:00:05+00:00''
      [(''asset_id'', JStr ''solar-01''), (''asset_type'', JStr ''solar_inverter''),
       (''state'', JStr ''RUNNING''), (''power_output_kw'', JFloat 50)] []
     = Inr [(JStr ''solar-01'',
             \<lparr>asset_id = JStr ''solar-01'', asset_type = JStr ''solar_inverter'',
              snapshot_state = JStr ''RUNNING'', power_kw = 50,
              last_seen = JStr ''2024-01-01T12:00:05+00:00'',
              raw = [(''asset_id'', JStr ''solar-01''), (''asset_type'', JStr ''solar_inverter''),
                     (''state'', JStr ''RUNNING''), (''power_output_kw'', JFloat 50)]\<rparr>)]
   \<and> update \<lparr>float_of_str = (\<lambda>s. None), format_1f = (\<lambda>x. []), str_other = (\<lambda>v. []),
       float_sum = plain_sum\<rparr>
      ''2024-01-01T12:00:35+00:00''
      [(''asset_id'', JStr ''solar-01''), (''asset_type'', JStr ''solar_inverter''),
       (''state'', JStr ''RUNNING''), (''power_output_kw'', JFloat 50)]
      [(JStr ''solar-01'',
             \<lparr>asset_id = JStr ''solar-01'', asset_type = JStr ''solar_inverter'',
              snapshot_state = JStr ''RUNNING'', power_kw = 50,
              last_seen = JStr ''2024-01-01T12:00:05+00:00'',
              raw = [(''asset_id'', JStr ''solar-01''), (''asset_type'', JStr ''solar_inverter''),
                     (''state'', JStr ''RUNNING''), (''power_output_kw'', JFloat 50)]\<rparr>)]
     = Inr [(JStr ''solar-01'',
             \<lparr>asset_id = JStr ''solar-01'', asset_type = JStr ''solar_inverter'',
              snapshot_state = JStr ''RUNNING'', power_kw = 50,
              last_seen = JStr ''2024-01-01T12:00:35+00:00'',
              raw = [(''asset_id'', JStr ''solar-01''), (''asset_type'', JStr ''solar_inverter''),
                     (''state'', JStr ''RUNNING''), (''power_output_kw'', JFloat 50)]\<rparr>)]
   \<and> get [(JStr ''solar-01'',
             \<lparr>asset_id = JStr ''solar-01'', asset_type = JStr ''solar_inverter'',
              snapshot_state = JStr ''RUNNING'', power_kw = 50,
              last_seen = JStr ''2024-01-01T12:00:35+00:00'',
              raw = [(''asset_id'', JStr ''solar-01''), (''asset_type'', JStr ''solar_inverter''),
                     (''state'', JStr ''RUNNING''), (''power_output_kw'', JFloat 50)]\<rparr>)]
          (JStr ''solar-01'')
       \<noteq> get [(JStr ''solar-01'',
             \<lparr>asset_id = JStr ''solar-01'', asset_type = JStr ''solar_inverter'',
              snapshot_state = JStr ''RUNNING'', power_kw = 50,
              last_seen = JStr ''2024-01-01T12:00:05+00:00'',
              raw = [(''asset_id'', JStr ''solar-01''), (''asset_type'', JStr ''solar_inverter''),
                     (''state'', JStr ''RUNNING''), (''power_output_kw'', JFloat 50)]\<rparr>)]
          (JStr ''solar-01'')"
  by (simp add: update_def extract_power_kw_def dict_get_def py_float_def py_truthy_def
                hashable_def py_key_def get_def Let_def)

section \<open>Proofs: aggregator\<close>

lemma round_half_even_int: "round_half_even (of_int k) = k"
  by (simp add: round_half_even_def)

lemma floor_log2_eq:
  assumes "2 powi k \<le> x" "x < 2 powi (k + 1)"
  shows "\<lfloor>log 2 x\<rfloor> = k"
proof -
  have "(0::real) < 2 powi k" by simp
  then have x: "0 < x" using assms(1) by linarith
  have a: "(2::real) powr real_of_int k = 2 powi k"
    by (rule powr_real_of_int') simp_all
  have b: "(2::real) powr real_of_int (k + 1) = 2 powi (k + 1)"
    by (rule powr_real_of_int') simp_all
  have "(\<lfloor>log 2 x\<rfloor> = k)
          = (2 powr real_of_int k \<le> x \<and> x < 2 powr real_of_int (k + 1))"
    by (rule floor_log_eq_powr_iff) (use x in simp_all)
  then show ?thesis using assms by (simp only: a b simp_thms)
qed

lemma floor_log2_less:
  assumes "0 < x" "x < 2 powi j"
  shows "\<lfloor>log 2 x\<rfloor> < j"
proof -
  have "log 2 x < of_int j"
    using assms by (simp add: log_less_iff powr_real_of_int')
  then show ?thesis by (simp add: floor_less_iff)
qed

text \<open>
  A number \<open>m * 2 powi k\<close> with \<open>\<bar>m\<bar> < 2 ^ 53\<close> and \<open>k\<close> from \<open>- 1074\<close> is a binary64
  number: rounding leaves it as it is. So float arithmetic is exact on the integers
  below \<open>2 ^ 53\<close>.
\<close>

lemma double_round_dyadic:
  assumes m: "\<bar>m\<bar> < 2 ^ 53" and k: "- 1074 \<le> k"
  shows "double_round (of_int m * 2 powi k) = of_int m * 2 powi k"
proof (cases "m = 0")
  case True
  then show ?thesis by (simp add: double_round_def)
next
  case False
  let ?x = "of_int m * (2::real) powi k"
  define E where "E = double_ulp_exponent ?x"
  have x0: "?x \<noteq> 0" using False by simp
  have "\<bar>?x\<bar> = of_int \<bar>m\<bar> * 2 powi k" by (simp add: abs_mult)
  also have "\<dots> < 2 ^ 53 * 2 powi k"
  proof -
    have "(of_int \<bar>m\<bar> :: real) < of_int (2 ^ 53)" using m by (simp only: of_int_less_iff)
    then show ?thesis by simp
  qed
  also have "\<dots> = 2 powi (k + 53)" by (simp add: power_int_add)
  finally have "\<bar>?x\<bar> < 2 powi (k + 53)" .
  moreover have "0 < \<bar>?x\<bar>" using x0 by simp
  ultimately have "\<lfloor>log 2 \<bar>?x\<bar>\<rfloor> < k + 53" by (rule floor_log2_less [rotated])
  then have E: "E \<le> k" using k by (simp add: E_def double_ulp_exponent_def)
  define n where "n = nat (k - E)"
  have kn: "k = E + int n" using E by (simp add: n_def)
  have p: "(2::real) powi k = 2 powi E * 2 ^ n"
    by (subst kn) (simp add: power_int_add)
  then have q: "?x / 2 powi E = of_int (m * 2 ^ n)" by simp
  have "double_round ?x = of_int (round_half_even (?x / 2 powi E)) * 2 powi E"
    using x0 by (simp add: double_round_def E_def)
  also have "\<dots> = of_int (m * 2 ^ n) * 2 powi E"
    by (simp only: q round_half_even_int)
  also have "\<dots> = of_int m * (2 powi E * 2 ^ n)" by simp
  also have "\<dots> = ?x" using p by simp
  finally show ?thesis .
qed

lemma double_round_int: "\<bar>m\<bar> < 2 ^ 53 \<Longrightarrow> double_round (of_int m) = of_int m"
  using double_round_dyadic [of m 0] by simp

lemma py_round2_int: "\<bar>m\<bar> < 2 ^ 53 \<Longrightarrow> py_round2 (of_int m) = of_int m"
proof -
  assume m: "\<bar>m\<bar> < 2 ^ 53"
  have "round_half_even (of_int m * 100) = m * 100"
    using round_half_even_int [of "m * 100"] by simp
  then show ?thesis by (simp add: py_round2_def double_round_int [OF m])
qed

lemma float_sub_int:
  "\<bar>m - n\<bar> < 2 ^ 53 \<Longrightarrow> float_sub (of_int m) (of_int n) = of_int (m - n)"
  using double_round_int [of "m - n"] by (simp add: float_sub_def)

lemma float_add_int:
  "\<bar>m + n\<bar> < 2 ^ 53 \<Longrightarrow> float_add (of_int m) (of_int n) = of_int (m + n)"
  using double_round_int [of "m + n"] by (simp add: float_add_def)

text \<open>The float that Python writes \<open>0.12\<close>.\<close>

lemma double_round_12_hundredths: "double_round (12 / 100) = 8646911284551352 / 2 ^ 56"
proof -
  have e: "\<lfloor>log 2 \<bar>12 / 100 :: real\<bar>\<rfloor> = - 4"
    by (rule floor_log2_eq) simp_all
  have u: "double_ulp_exponent (12 / 100) = - 56"
    using e by (simp add: double_ulp_exponent_def)
  show ?thesis
    using u by (simp add: double_round_def round_half_even_def)
qed

lemma double_round_1e16_less_1: "double_round (10000000000000000 - 1) = 10000000000000000"
proof -
  have e: "\<lfloor>log 2 \<bar>10000000000000000 - 1 :: real\<bar>\<rfloor> = 53"
    by (rule floor_log2_eq) simp_all
  have u: "double_ulp_exponent (10000000000000000 - 1) = 1"
    using e by (simp add: double_ulp_exponent_def)
  show ?thesis
    using u by (simp add: double_round_def round_half_even_def)
qed

lemma py_round2_1e16: "py_round2 10000000000000000 = 10000000000000000"
  using double_round_dyadic [of 152587890625 16]
    round_half_even_int [of 1000000000000000000]
  by (simp add: py_round2_def)

lemma compute_fields:
  "total_generation_kw (compute py now self reg)
     = py_round2 (py_sum py (map power_kw (filter (\<lambda>s. power_kw s > 0) (get_all reg))))"
  "total_consumption_kw (compute py now self reg)
     = py_round2 (py_sum py (map (\<lambda>s. \<bar>power_kw s\<bar>)
                               (filter (\<lambda>s. power_kw s < 0) (get_all reg))))"
  "grid_balance_kw (compute py now self reg)
     = py_round2 (float_sub
         (py_sum py (map power_kw (filter (\<lambda>s. power_kw s > 0) (get_all reg))))
         (py_sum py (map (\<lambda>s. \<bar>power_kw s\<bar>) (filter (\<lambda>s. power_kw s < 0) (get_all reg)))))"
  "asset_count (compute py now self reg) = length (get_all reg)"
  by (simp_all add: compute_def Let_def)

text \<open>The lists that hold 100, -30 and -40 in some order.\<close>

lemma sort_three_cases:
  fixes xs :: "real list"
  assumes "sort xs = [- 40, - 30, 100]"
  shows "xs = [100, - 30, - 40] \<or> xs = [100, - 40, - 30] \<or> xs = [- 30, 100, - 40]
         \<or> xs = [- 30, - 40, 100] \<or> xs = [- 40, 100, - 30] \<or> xs = [- 40, - 30, 100]"
proof -
  have "length (sort xs) = length xs" "set (sort xs) = set xs"
    "distinct (sort xs) = distinct xs"
    by simp_all
  then have l: "length xs = 3" and s: "set xs = {- 40, - 30, 100}" and d: "distinct xs"
    unfolding assms by simp_all
  from l obtain a b c where xs: "xs = [a, b, c]"
    by (auto simp: length_Suc_conv numeral_3_eq_3)
  have "a \<in> {- 40, - 30, 100}" "b \<in> {- 40, - 30, 100}" "c \<in> {- 40, - 30, 100}"
    using s unfolding xs by auto
  then show ?thesis using d unfolding xs by auto
qed

lemma powers_of_filter:
  "map power_kw (filter (\<lambda>s. power_kw s > 0) snaps) = filter (\<lambda>p. p > 0) (map power_kw snaps)"
  "map (\<lambda>s. \<bar>power_kw s\<bar>) (filter (\<lambda>s. power_kw s < 0) snaps)
     = map abs (filter (\<lambda>p. p < 0) (map power_kw snaps))"
  by (induction snaps) simp_all

lemma exact_100_70_30:
  "py_round2 100 = 100" "py_round2 70 = 70" "py_round2 30 = 30" "float_sub 100 70 = 30"
  using py_round2_int [of 100] py_round2_int [of 70] py_round2_int [of 30]
    float_sub_int [of 100 70]
  by simp_all

lemma compute_empty:
  "total_generation_kw (compute py now self []) = 0"
  "total_consumption_kw (compute py now self []) = 0"
  "grid_balance_kw (compute py now self []) = 0"
  by (simp_all add: compute_def get_all_def Let_def py_sum_def float_sub_def py_round2_def
                    double_round_def round_half_even_def)

text \<open>
  The balance is a float difference: with a generation of \<open>10 ^ 16\<close> and a consumption
  of 1 it is \<open>10 ^ 16\<close>, the float nearest to the difference.
\<close>

lemma balance_is_float_difference:
  assumes "map power_kw (get_all reg) = [10000000000000000, - 1]"
  shows "total_generation_kw (compute py now self reg) = 10000000000000000
         \<and> total_consumption_kw (compute py now self reg) = 1
         \<and> grid_balance_kw (compute py now self reg) = 10000000000000000"
  using assms py_round2_int [of 1] double_round_1e16_less_1 py_round2_1e16
  by (simp add: compute_fields powers_of_filter py_sum_def float_sub_def)

text \<open>
  Claim C4, as amended. \<open>compute\<close> works on floats and rounds each of the three figures
  to two decimals before returning it: \<open>total_generation_kw\<close> is \<open>round(g, 2)\<close>, where
  \<open>g\<close> is the float sum of the strictly positive powers; \<open>total_consumption_kw\<close> is
  \<open>round(c, 2)\<close>, where \<open>c\<close> is the float sum of the absolute values of the strictly
  negative powers; \<open>grid_balance_kw\<close> is \<open>round(g - c, 2)\<close>, the float difference of the
  two unrounded sums, rounded; \<open>asset_count\<close> is the number of snapshots. For the
  entries 100, -30 and -40, in whatever order the registry holds them, the figures are
  100, 70 and 30 (the sum of the floats 30 and 40 being 70), and for an empty registry
  all three are 0. As stated, with the totals equal to the sums, the claim fails: one
  snapshot with power 0.125 gives \<open>total_generation_kw = 0.12\<close> (shown after the
  theorem).
\<close>

theorem compute_totals:
  "total_generation_kw (compute py now self reg)
     = py_round2 (py_sum py (map power_kw (filter (\<lambda>s. power_kw s > 0) (get_all reg))))
   \<and> total_consumption_kw (compute py now self reg)
     = py_round2 (py_sum py (map (\<lambda>s. \<bar>power_kw s\<bar>)
                               (filter (\<lambda>s. power_kw s < 0) (get_all reg))))
   \<and> grid_balance_kw (compute py now self reg)
     = py_round2 (float_sub
         (py_sum py (map power_kw (filter (\<lambda>s. power_kw s > 0) (get_all reg))))
         (py_sum py (map (\<lambda>s. \<bar>power_kw s\<bar>) (filter (\<lambda>s. power_kw s < 0) (get_all reg)))))
   \<and> asset_count (compute py now self reg) = length (get_all reg)
   \<and> (sort (map power_kw (get_all reg)) = [- 40, - 30, 100]
        \<and> float_sum py [30, 40] = 70 \<and> float_sum py [40, 30] = 70 \<longrightarrow>
        total_generation_kw (compute py now self reg) = 100
        \<and> total_consumption_kw (compute py now self reg) = 70
        \<and> grid_balance_kw (compute py now self reg) = 30)
   \<and> total_generation_kw (compute py now self []) = 0
   \<and> total_consumption_kw (compute py now self []) = 0
   \<and> grid_balance_kw (compute py now self []) = 0"
proof -
  have particular:
    "total_generation_kw (compute py now self reg) = 100
     \<and> total_consumption_kw (compute py now self reg) = 70
     \<and> grid_balance_kw (compute py now self reg) = 30"
    if h: "sort (map power_kw (get_all reg)) = [- 40, - 30, 100]"
      and s1: "float_sum py [30, 40] = 70" and s2: "float_sum py [40, 30] = 70"
  proof -
    let ?ps = "map power_kw (get_all reg)"
    have "filter (\<lambda>p. p > 0) ?ps = [100]
          \<and> (map abs (filter (\<lambda>p. p < 0) ?ps) = [30, 40]
             \<or> map abs (filter (\<lambda>p. p < 0) ?ps) = [40, 30])"
      using sort_three_cases [OF h] by auto
    then have "py_sum py (filter (\<lambda>p. p > 0) ?ps) = 100
          \<and> py_sum py (map abs (filter (\<lambda>p. p < 0) ?ps)) = 70"
      using s1 s2 by (auto simp: py_sum_def)
    then show ?thesis
      by (simp add: compute_fields powers_of_filter exact_100_70_30)
  qed
  show ?thesis
    using particular compute_empty [of py now self]
    by (simp add: compute_fields [of py now self reg])
qed

theorem compute_totals_witness:
  "sort (map power_kw (get_all
      [(JStr ''solar-01'', \<lparr>asset_id = JStr ''solar-01'', asset_type = JStr ''solar_inverter'',
         snapshot_state = JStr ''RUNNING'', power_kw = 100,
         last_seen = JStr ''2024-01-01T12:00:00Z'', raw = []\<rparr>),
       (JStr ''battery-01'', \<lparr>asset_id = JStr ''battery-01'', asset_type = JStr ''battery_storage'',
         snapshot_state = JStr ''CHARGING'', power_kw = - 30,
         last_seen = JStr ''2024-01-01T12:00:00Z'', raw = []\<rparr>),
       (JStr ''boiler-01'', \<lparr>asset_id = JStr ''boiler-01'', asset_type = JStr ''industrial_boiler'',
         snapshot_state = JStr ''RUNNING'', power_kw = - 40,
         last_seen = JStr ''2024-01-01T12:00:00Z'', raw = []\<rparr>)])) = [- 40, - 30, 100]
   \<and> float_sum \<lparr>float_of_str = (\<lambda>s. None), format_1f = (\<lambda>x. []), str_other = (\<lambda>v. []),
       float_sum = plain_sum\<rparr> [30, 40] = 70
   \<and> float_sum \<lparr>float_of_str = (\<lambda>s. None), format_1f = (\<lambda>x. []), str_other = (\<lambda>v. []),
       float_sum = plain_sum\<rparr> [40, 30] = 70
   \<and> total_generation_kw (compute
      \<lparr>float_of_str = (\<lambda>s. None), format_1f = (\<lambda>x. []), str_other = (\<lambda>v. []),
       float_sum = plain_sum\<rparr>
      ''2024-01-01T12:00:30+00:00''
      \<lparr>agg_device_id = ''test-device'', surplus_threshold_kw = 10\<rparr>
      [(JStr ''solar-01'', \<lparr>asset_id = JStr ''solar-01'', asset_type = JStr ''solar_inverter'',
         snapshot_state = JStr ''RUNNING'', power_kw = 100,
         last_seen = JStr ''2024-01-01T12:00:00Z'', raw = []\<rparr>),
       (JStr ''battery-01'', \<lparr>asset_id = JStr ''battery-01'', asset_type = JStr ''battery_storage'',
         snapshot_state = JStr ''CHARGING'', power_kw = - 30,
         last_seen = JStr ''2024-01-01T12:00:00Z'', raw = []\<rparr>),
       (JStr ''boiler-01'', \<lparr>asset_id = JStr ''boiler-01'', asset_type = JStr ''industrial_boiler'',
         snapshot_state = JStr ''RUNNING'', power_kw = - 40,
         last_seen = JStr ''2024-01-01T12:00:00Z'', raw = []\<rparr>)]) = 100
   \<and> total_consumption_kw (compute
      \<lparr>float_of_str = (\<lambda>s. None), format_1f = (\<lambda>x. []), str_other = (\<lambda>v. []),
       float_sum = plain_sum\<rparr>
      ''2024-01-01T12:00:30+00:00''
      \<lparr>agg_device_id = ''test-device'', surplus_threshold_kw = 10\<rparr>
      [(JStr ''solar-01'', \<lparr>asset_id = JStr ''solar-01'', asset_type = JStr ''solar_inverter'',
         snapshot_state = JStr ''RUNNING'', power_kw = 100,
         last_seen = JStr ''2024-01-01T12:00:00Z'', raw = []\<rparr>),
       (JStr ''battery-01'', \<lparr>asset_id = JStr ''battery-01'', asset_type = JStr ''battery_storage'',
         snapshot_state = JStr ''CHARGING'', power_kw = - 30,
         last_seen = JStr ''2024-01-01T12:00:00Z'', raw = []\<rparr>),
       (JStr ''boiler-01'', \<lparr>asset_id = JStr ''boiler-01'', asset_type = JStr ''industrial_boiler'',
         snapshot_state = JStr ''RUNNING'', power_kw = - 40,
         last_seen = JStr ''2024-01-01T12:00:00Z'', raw = []\<rparr>)]) = 70
   \<and> grid_balance_kw (compute
      \<lparr>float_of_str = (\<lambda>s. None), format_1f = (\<lambda>x. []), str_other = (\<lambda>v. []),
       float_sum = plain_sum\<rparr>
      ''2024-01-01T12:00:30+00:00''
      \<lparr>agg_device_id = ''test-device'', surplus_threshold_kw = 10\<rparr>
      [(JStr ''solar-01'', \<lparr>asset_id = JStr ''solar-01'', asset_type = JStr ''solar_inverter'',
         snapshot_state = JStr ''RUNNING'', power_kw = 100,
         last_seen = JStr ''2024-01-01T12:00:00Z'', raw = []\<rparr>),
       (JStr ''battery-01'', \<lparr>asset_id = JStr ''battery-01'', asset_type = JStr ''battery_storage'',
         snapshot_state = JStr ''CHARGING'', power_kw = - 30,
         last_seen = JStr ''2024-01-01T12:00:00Z'', raw = []\<rparr>),
       (JStr ''boiler-01'', \<lparr>asset_id = JStr ''boiler-01'', asset_type = JStr ''industrial_boiler'',
         snapshot_state = JStr ''RUNNING'', power_kw = - 40,
         last_seen = JStr ''2024-01-01T12:00:00Z'', raw = []\<rparr>)]) = 30
   \<and> asset_count (compute
      \<lparr>float_of_str = (\<lambda>s. None), format_1f = (\<lambda>x. []), str_other = (\<lambda>v. []),
       float_sum = plain_sum\<rparr>
      ''2024-01-01T12:00:30+00:00''
      \<lparr>agg_device_id = ''test-device'', surplus_threshold_kw = 10\<rparr>
      [(JStr ''solar-01'', \<lparr>asset_id = JStr ''solar-01'', asset_type = JStr ''solar_inverter'',
         snapshot_state = JStr ''RUNNING'', power_kw = 100,
         last_seen = JStr ''2024-01-01T12:00:00Z'', raw = []\<rparr>),
       (JStr ''battery-01'', \<lparr>asset_id = JStr ''battery-01'', asset_type = JStr ''battery_storage'',
         snapshot_state = JStr ''CHARGING'', power_kw = - 30,
         last_seen = JStr ''2024-01-01T12:00:00Z'', raw = []\<rparr>),
       (JStr ''boiler-01'', \<lparr>asset_id = JStr ''boiler-01'', asset_type = JStr ''industrial_boiler'',
         snapshot_state = JStr ''RUNNING'', power_kw = - 40,
         last_seen = JStr ''2024-01-01T12:00:00Z'', raw = []\<rparr>)]) = 3
   \<and> total_generation_kw (compute
      \<lparr>float_of_str = (\<lambda>s. None), format_1f = (\<lambda>x. []), str_other = (\<lambda>v. []),
       float_sum = plain_sum\<rparr>
      ''2024-01-01T12:00:30+00:00''
      \<lparr>agg_device_id = ''test-device'', surplus_threshold_kw = 10\<rparr>
      []) = 0
   \<and> total_consumption_kw (compute
      \<lparr>float_of_str = (\<lambda>s. None), format_1f = (\<lambda>x. []), str_other = (\<lambda>v. []),
       float_sum = plain_sum\<rparr>
      ''2024-01-01T12:00:30+00:00''
      \<lparr>agg_device_id = ''test-device'', surplus_threshold_kw = 10\<rparr>
      []) = 0
   \<and> grid_balance_kw (compute
      \<lparr>float_of_str = (\<lambda>s. None), format_1f = (\<lambda>x. []), str_other = (\<lambda>v. []),
       float_sum = plain_sum\<rparr>
      ''2024-01-01T12:00:30+00:00''
      \<lparr>agg_device_id = ''test-device'', surplus_threshold_kw = 10\<rparr>
      []) = 0"
proof -
  let ?py = "\<lparr>float_of_str = (\<lambda>s. None), format_1f = (\<lambda>x. []), str_other = (\<lambda>v. []),
       float_sum = plain_sum\<rparr>"
  let ?ag = "\<lparr>agg_device_id = ''test-device'', surplus_threshold_kw = 10\<rparr>"
  let ?r = "[(JStr ''solar-01'', \<lparr>asset_id = JStr ''solar-01'', asset_type = JStr ''solar_inverter'',
         snapshot_state = JStr ''RUNNING'', power_kw = 100,
         last_seen = JStr ''2024-01-01T12:00:00Z'', raw = []\<rparr>),
       (JStr ''battery-01'', \<lparr>asset_id = JStr ''battery-01'', asset_type = JStr ''battery_storage'',
         snapshot_state = JStr ''CHARGING'', power_kw = - 30,
         last_seen = JStr ''2024-01-01T12:00:00Z'', raw = []\<rparr>),
       (JStr ''boiler-01'', \<lparr>asset_id = JStr ''boiler-01'', asset_type = JStr ''industrial_boiler'',
         snapshot_state = JStr ''RUNNING'', power_kw = - 40,
         last_seen = JStr ''2024-01-01T12:00:00Z'', raw = []\<rparr>)]"
  have s1: "plain_sum [30, 40] = 70"
    using float_add_int [of 0 30] float_add_int [of 30 40] by (simp add: plain_sum_def)
  have s2: "plain_sum [40, 30] = 70"
    using float_add_int [of 0 40] float_add_int [of 40 30] by (simp add: plain_sum_def)
  have h: "sort (map power_kw (get_all ?r)) = [- 40, - 30, 100]"
    by (simp add: get_all_def)
  show ?thesis
    using compute_totals [of ?py "''2024-01-01T12:00:30+00:00''" ?ag ?r] h s1 s2
    by (simp add: get_all_def)
qed

theorem total_generation_rounded_counterexample:
  "update \<lparr>float_of_str = (\<lambda>s. None), format_1f = (\<lambda>x. []), str_other = (\<lambda>v. []),
       float_sum = plain_sum\<rparr>
      ''2024-01-01T12:00:05+00:00''
      [(''asset_id'', JStr ''solar-01''), (''asset_type'', JStr ''solar_inverter''),
       (''state'', JStr ''RUNNING''), (''power_output_kw'', JFloat 0.125),
       (''timestamp'', JStr ''2024-01-01T12:00:00Z'')] []
     = Inr [(JStr ''solar-01'', \<lparr>asset_id = JStr ''solar-01'', asset_type = JStr ''solar_inverter'',
          snapshot_state = JStr ''RUNNING'', power_kw = 0.125,
          last_seen = JStr ''2024-01-01T12:00:00Z'',
          raw = [(''asset_id'', JStr ''solar-01''), (''asset_type'', JStr ''solar_inverter''),
                 (''state'', JStr ''RUNNING''), (''power_output_kw'', JFloat 0.125),
                 (''timestamp'', JStr ''2024-01-01T12:00:00Z'')]\<rparr>)]
   \<and> total_generation_kw (compute
      \<lparr>float_of_str = (\<lambda>s. None), format_1f = (\<lambda>x. []), str_other = (\<lambda>v. []),
       float_sum = plain_sum\<rparr>
      ''2024-01-01T12:00:30+00:00''
      \<lparr>agg_device_id = ''test-device'', surplus_threshold_kw = 10\<rparr>
      [(JStr ''solar-01'', \<lparr>asset_id = JStr ''solar-01'', asset_type = JStr ''solar_inverter'',
          snapshot_state = JStr ''RUNNING'', power_kw = 0.125,
          last_seen = JStr ''2024-01-01T12:00:00Z'',
          raw = [(''asset_id'', JStr ''solar-01''), (''asset_type'', JStr ''solar_inverter''),
                 (''state'', JStr ''RUNNING''), (''power_output_kw'', JFloat 0.125),
                 (''timestamp'', JStr ''2024-01-01T12:00:00Z'')]\<rparr>)]) = 8646911284551352 / 2 ^ 56
   \<and> sum_list (map power_kw (filter (\<lambda>s. power_kw s > 0) (get_all
      [(JStr ''solar-01'', \<lparr>asset_id = JStr ''solar-01'', asset_type = JStr ''solar_inverter'',
          snapshot_state = JStr ''RUNNING'', power_kw = 0.125,
          last_seen = JStr ''2024-01-01T12:00:00Z'',
          raw = [(''asset_id'', JStr ''solar-01''), (''asset_type'', JStr ''solar_inverter''),
                 (''state'', JStr ''RUNNING''), (''power_output_kw'', JFloat 0.125),
                 (''timestamp'', JStr ''2024-01-01T12:00:00Z'')]\<rparr>)]))) = 0.125
   \<and> total_generation_kw (compute
      \<lparr>float_of_str = (\<lambda>s. None), format_1f = (\<lambda>x. []), str_other = (\<lambda>v. []),
       float_sum = plain_sum\<rparr>
      ''2024-01-01T12:00:30+00:00''
      \<lparr>agg_device_id = ''test-device'', surplus_threshold_kw = 10\<rparr>
      [(JStr ''solar-01'', \<lparr>asset_id = JStr ''solar-01'', asset_type = JStr ''solar_inverter'',
          snapshot_state = JStr ''RUNNING'', power_kw = 0.125,
          last_seen = JStr ''2024-01-01T12:00:00Z'',
          raw = [(''asset_id'', JStr ''solar-01''), (''asset_type'', JStr ''solar_inverter''),
                 (''state'', JStr ''RUNNING''), (''power_output_kw'', JFloat 0.125),
                 (''timestamp'', JStr ''2024-01-01T12:00:00Z'')]\<rparr>)])
     \<noteq> sum_list (map power_kw (filter (\<lambda>s. power_kw s > 0) (get_all
      [(JStr ''solar-01'', \<lparr>asset_id = JStr ''solar-01'', asset_type = JStr ''solar_inverter'',
          snapshot_state = JStr ''RUNNING'', power_kw = 0.125,
          last_seen = JStr ''2024-01-01T12:00:00Z'',
          raw = [(''asset_id'', JStr ''solar-01''), (''asset_type'', JStr ''solar_inverter''),
                 (''state'', JStr ''RUNNING''), (''power_output_kw'', JFloat 0.125),
                 (''timestamp'', JStr ''2024-01-01T12:00:00Z'')]\<rparr>)])))"
  using double_round_12_hundredths
  by (simp add: update_def extract_power_kw_def dict_get_def py_float_def py_truthy_def
                hashable_def py_key_def compute_def get_all_def Let_def py_sum_def
                py_round2_def round_half_even_def)

lemma balance_alerts_fault [simp]: "balance_alerts (fault_alerts py snaps) = []"
  by (simp add: balance_alerts_def fault_alerts_def filter_empty_conv)

lemma balance_alerts_append [simp]:
  "balance_alerts (xs @ ys) = balance_alerts xs @ balance_alerts ys"
  by (simp add: balance_alerts_def)






end
